theory Spec2Isabelle
  imports Main "HOL-Library.AList" "HOL-Library.Sublist"
begin

section \<open>JavaScript strings and maps\<close>

text \<open>
  Strings are \<^typ>\<open>string\<close> (lists of characters). A JavaScript \<open>Map\<close> keeps its
  keys in insertion order and \<open>set\<close> on a key that is present replaces the value in
  place: this is an association list with \<^const>\<open>AList.update\<close>; \<open>get\<close> is
  \<^const>\<open>map_of\<close> and \<open>keys()\<close> is \<open>map fst\<close>.
\<close>

text \<open>\<open>String.prototype.split(sep)\<close> for a one-character separator: the pieces between
  the separators, \<open>n + 1\<close> pieces for \<open>n\<close> separators.\<close>

fun js_split :: "char \<Rightarrow> string \<Rightarrow> string list" where
  "js_split c [] = [[]]"
| "js_split c (x # xs) =
     (if x = c then [] # js_split c xs
      else (case js_split c xs of
              [] \<Rightarrow> [[x]]
            | p # ps \<Rightarrow> (x # p) # ps))"

text \<open>The white space \<open>trim\<close> removes, over the ASCII range: tab, line feed, vertical
  tab, form feed, carriage return and space.\<close>

definition isWhiteSpace :: "char \<Rightarrow> bool" where
  "isWhiteSpace c \<longleftrightarrow> c \<in> set [CHR 0x09, CHR 0x0A, CHR 0x0B, CHR 0x0C, CHR 0x0D, CHR 0x20]"

definition js_trim :: "string \<Rightarrow> string" where
  "js_trim s = rev (dropWhile isWhiteSpace (rev (dropWhile isWhiteSpace s)))"

text \<open>\<open>String.prototype.toLowerCase\<close> and \<open>includes\<close>; case folding is modelled on the
  ASCII letters.\<close>

definition toLowerChar :: "char \<Rightarrow> char" where
  "toLowerChar c =
     (case map_of (zip ''ABCDEFGHIJKLMNOPQRSTUVWXYZ'' ''abcdefghijklmnopqrstuvwxyz'') c of
        Some l \<Rightarrow> l
      | None \<Rightarrow> c)"

definition toLowerCase :: "string \<Rightarrow> string" where
  "toLowerCase s = map toLowerChar s"

fun starts_with :: "string \<Rightarrow> string \<Rightarrow> bool" where
  "starts_with s [] = True"
| "starts_with [] (k # ks) = False"
| "starts_with (x # xs) (k # ks) = (x = k \<and> starts_with xs ks)"

fun js_includes :: "string \<Rightarrow> string \<Rightarrow> bool" where
  "js_includes [] k = (k = [])"
| "js_includes (x # xs) k = (starts_with (x # xs) k \<or> js_includes xs k)"

text \<open>\<open>String(n)\<close> for an integer \<open>n\<close>: its decimal digits, with a minus sign in front
  of a negative one.\<close>

definition digit :: "nat \<Rightarrow> char" where
  "digit d = ''0123456789'' ! d"

fun digits :: "nat \<Rightarrow> string" where
  "digits n = (if n < 10 then [digit n] else digits (n div 10) @ [digit (n mod 10)])"

declare digits.simps [simp del]

definition String_num :: "int \<Rightarrow> string" where
  "String_num i = (if i < 0 then CHR ''-'' # digits (nat (- i)) else digits (nat i))"

text \<open>\<open>xs.slice(0, end)\<close>: a negative \<open>end\<close> counts from the end of the array.\<close>

definition slice0 :: "'a list \<Rightarrow> int \<Rightarrow> 'a list" where
  "slice0 xs e = (if e < 0 then take (nat (int (length xs) + e)) xs else take (nat e) xs)"

text \<open>For the statements below: a list without its last \<open>n\<close> entries.\<close>

definition butlast_n :: "nat \<Rightarrow> 'a list \<Rightarrow> 'a list" where
  "butlast_n n xs = take (length xs - n) xs"

text \<open>A string argument that may be left out: \<open>undefined\<close> and the empty string are both
  falsy.\<close>

definition truthy :: "string option \<Rightarrow> bool" where
  "truthy x = (case x of None \<Rightarrow> False | Some s \<Rightarrow> s \<noteq> [])"

section \<open>Data model\<close>

text \<open>
  A value read from JSON, where the program takes it as it comes (\<open>any\<close>). Numbers are
  integers.
\<close>

datatype json =
    JNull
  | JBool bool
  | JNumber int
  | JString string
  | JArray "json list"
  | JObject "(string \<times> json) list"

text \<open>
  \<open>String(v)\<close> for such a value; \<open>None\<close> where it throws. An array is joined with
  commas, a \<open>null\<close> among its elements giving the empty string. An object is printed by
  the \<open>toString\<close> it inherits, unless it has a property of that name itself: a property
  read from JSON is not a function, the inherited \<open>valueOf\<close> returns the object, and the
  conversion throws a \<open>TypeError\<close>.
\<close>

fun String_json :: "json \<Rightarrow> string option" and join_json :: "json list \<Rightarrow> string option" where
  "String_json JNull = Some ''null''"
| "String_json (JBool b) = Some (if b then ''true'' else ''false'')"
| "String_json (JNumber n) = Some (String_num n)"
| "String_json (JString s) = Some s"
| "String_json (JArray xs) = join_json xs"
| "String_json (JObject kvs) =
     (if ''toString'' \<in> set (map fst kvs) then None else Some ''[object Object]'')"
| "join_json [] = Some []"
| "join_json (x # xs) =
     (case (if x = JNull then Some [] else String_json x) of
        None \<Rightarrow> None
      | Some s \<Rightarrow>
          if xs = [] then Some s
          else (case join_json xs of None \<Rightarrow> None | Some r \<Rightarrow> Some (s @ '','' @ r)))"

text \<open>Whether such a value is truthy.\<close>

fun truthy_json :: "json \<Rightarrow> bool" where
  "truthy_json JNull = False"
| "truthy_json (JBool b) = b"
| "truthy_json (JNumber n) = (n \<noteq> 0)"
| "truthy_json (JString s) = (s \<noteq> [])"
| "truthy_json (JArray xs) = True"
| "truthy_json (JObject kvs) = True"

text \<open>
  \<open>Array.prototype.some\<close> and \<open>Array.prototype.filter\<close> with a callback that may throw
  (\<open>None\<close>): \<open>some\<close> stops at the first element for which the callback holds,
  \<open>filter\<close> calls it on every element; an exception of the callback ends the call.
\<close>

fun js_some :: "('a \<Rightarrow> bool option) \<Rightarrow> 'a list \<Rightarrow> bool option" where
  "js_some p [] = Some False"
| "js_some p (x # xs) =
     (case p x of
        None \<Rightarrow> None
      | Some b \<Rightarrow> if b then Some True else js_some p xs)"

fun js_filter :: "('a \<Rightarrow> bool option) \<Rightarrow> 'a list \<Rightarrow> 'a list option" where
  "js_filter p [] = Some []"
| "js_filter p (x # xs) =
     (case p x of
        None \<Rightarrow> None
      | Some b \<Rightarrow>
          (case js_filter p xs of
             None \<Rightarrow> None
           | Some ys \<Rightarrow> Some (if b then x # ys else ys)))"

text \<open>
  The records of \<open>types.ts\<close> with the fields the service reads. Identifiers assigned by
  the remote service are integers. A field of a raw menu entry that may be missing or of
  another type is an option: \<open>None\<close> stands for a value that fails the source's
  \<open>typeof ... === 'string'\<close> or \<open>Array.isArray\<close> test. The tags of an entry are read as
  they come.
\<close>

record ProjectInfo =
  pi_id :: int
  pi_name :: string
  pi_desc :: string
  pi_basepath :: string
  pi_group_id :: int

record CategoryInfo =
  ci_id :: int
  ci_name :: string
  ci_desc :: string
  ci_project_id :: int

record ApiItem =
  a_id :: int
  a_title :: "string option"
  a_path :: "string option"
  a_method :: string
  a_catid :: int
  a_project_id :: int
  a_tag :: "json list option"
  a_cat_name :: "string option"
  a_project_name :: "string option"

text \<open>One entry of the data of \<open>/api/interface/list_menu\<close>: a category with its
  interfaces.\<close>

record MenuCategory =
  mc_id :: int
  mc_name :: string
  mc_list :: "ApiItem list option"

record SearchResult =
  res_total :: nat
  res_list :: "ApiItem list"

record SaveApiInterfaceParams =
  sp_project_id :: string
  sp_catid :: string
  sp_id :: "string option"
  sp_title :: string
  sp_path :: string
  sp_method :: string
  sp_status :: string
  sp_tag :: json
  sp_desc :: string
  sp_markdown :: string
  sp_req_params :: "json option"
  sp_req_query :: "json option"
  sp_req_headers :: "json option"
  sp_req_body_type :: "string option"
  sp_req_body_form :: "json option"
  sp_req_body_other :: "string option"
  sp_req_body_is_json_schema :: "bool option"
  sp_res_body_type :: "string option"
  sp_res_body :: "string option"
  sp_res_body_is_json_schema :: "bool option"
  sp_switch_notice :: "bool option"
  sp_api_opened :: "bool option"

section \<open>The remote service\<close>

text \<open>
  What one call of \<open>axios.get\<close> or \<open>axios.post\<close> ends in: no response at all, a response
  with an error status (with the \<open>errmsg\<close> of its body), or a body, the envelope
  \<open>{errcode, errmsg, data}\<close>.
\<close>

record 'a envelope =
  errcode :: int
  errmsg :: string
  data :: 'a

datatype 'a axios_result =
    NetworkError
  | ErrorResponse nat string
  | Response "'a envelope"

text \<open>
  The failures the service throws. \<open>CommError\<close> is \<open>new Error("...")\<close> of the catch
  block of \<open>request\<close>; \<open>HttpError\<close> is the object \<open>{status, message}\<close> thrown there;
  \<open>AppError\<close> is the \<open>new Error(response.errmsg || ...)\<close> thrown on a nonzero
  \<open>errcode\<close> (it carries \<open>errmsg\<close>; where that is empty the source puts a fixed text).
\<close>

datatype error =
    CommError
  | HttpError nat string
  | AppError string

datatype endpoint =
    Project_get
  | GetCatMenu
  | List_menu
  | Interface_add
  | Interface_up

text \<open>
  The \<open>data\<close> of the answer to a save is an object that may carry the interface id
  \<open>_id\<close>; the answer may also come without \<open>data\<close> (\<open>null\<close>), which is \<open>None\<close> in
  the envelope.
\<close>

record SaveData =
  sd_id :: "int option"

text \<open>
  The remote service is outside the program. It is a parameter: for each endpoint, the
  answer to the request that was the \<open>k\<close>-th one the service sent (counted from 0), so
  that the same request may be answered differently at different times. \<open>arrival k\<close>
  is the time at which the answer to request \<open>k\<close> comes in; it orders the answers to
  requests that are in flight together.
\<close>

record Remote =
  project_get :: "nat \<Rightarrow> string \<Rightarrow> ProjectInfo axios_result"
  getCatMenu :: "nat \<Rightarrow> string \<Rightarrow> CategoryInfo list axios_result"
  list_menu :: "nat \<Rightarrow> string \<Rightarrow> MenuCategory list axios_result"
  interface_save :: "nat \<Rightarrow> endpoint \<Rightarrow> SaveApiInterfaceParams \<Rightarrow> SaveData option axios_result"
  arrival :: "nat \<Rightarrow> nat"

section \<open>The service and its credential table\<close>

text \<open>
  The fields of class \<open>YApiService\<close>. Two more fields record its dealings with the remote
  service: \<open>sent\<close>, the requests issued so far, oldest first, and \<open>inflight\<close>, the
  requests whose answer no caller waits for any more (see \<open>Promise.all\<close> below).
\<close>

record YApiService =
  tokenMap :: "(string \<times> string) list"
  defaultToken :: string
  projectInfoCache :: "(string \<times> ProjectInfo) list"
  categoryListCache :: "(string \<times> CategoryInfo list) list"
  sent :: "(endpoint \<times> string) list"
  inflight :: "(endpoint \<times> string \<times> nat) list"

text \<open>
  The constructor. \<open>const [projectId, projectToken] = pair.trim().split(':')\<close> reads the
  first two pieces; a piece that is missing is \<open>undefined\<close>, which is falsy like the
  empty string.
\<close>

definition nth_piece :: "string list \<Rightarrow> nat \<Rightarrow> string" where
  "nth_piece ps i = (if i < length ps then ps ! i else [])"

definition add_pair :: "string \<Rightarrow> YApiService \<Rightarrow> YApiService" where
  "add_pair pair s =
     (let pieces = js_split CHR '':'' (js_trim pair);
          projectId = nth_piece pieces 0;
          projectToken = nth_piece pieces 1
      in if projectId \<noteq> [] \<and> projectToken \<noteq> []
         then s\<lparr>tokenMap := AList.update projectId projectToken (tokenMap s)\<rparr>
         else if CHR '':'' \<notin> set projectId
         then s\<lparr>defaultToken := js_trim pair\<rparr>
         else s)"

definition new_YApiService :: "string \<Rightarrow> YApiService" where
  "new_YApiService token =
     (let s0 = \<lparr>tokenMap = [], defaultToken = [], projectInfoCache = [],
                categoryListCache = [], sent = [], inflight = []\<rparr>
      in if token \<noteq> [] then fold add_pair (js_split CHR '','' token) s0 else s0)"

definition getConfiguredProjectIds :: "YApiService \<Rightarrow> string list" where
  "getConfiguredProjectIds s = map fst (tokenMap s)"

text \<open>\<open>getToken\<close>: \<open>this.tokenMap.get(projectId) || this.defaultToken\<close>; an empty string
  in the table would be falsy and fall through to the default.\<close>

definition getToken :: "YApiService \<Rightarrow> string \<Rightarrow> string" where
  "getToken s projectId =
     (case map_of (tokenMap s) projectId of
        Some t \<Rightarrow> if t \<noteq> [] then t else defaultToken s
      | None \<Rightarrow> defaultToken s)"

text \<open>
  The pieces of a trimmed entry that the constructor reads, described without \<open>split\<close>:
  the text before the first colon, and the text between the first colon and the second
  one (or the end of the entry). An entry is a pair when both are non-empty.
  \<open>entries\<close> are the trimmed comma-separated entries of the token string.
\<close>

definition entry_projectId :: "string \<Rightarrow> string" where
  "entry_projectId e = takeWhile (\<lambda>x. x \<noteq> CHR '':'') e"

definition entry_token :: "string \<Rightarrow> string" where
  "entry_token e =
     takeWhile (\<lambda>x. x \<noteq> CHR '':'') (tl (dropWhile (\<lambda>x. x \<noteq> CHR '':'') e))"

definition is_pair :: "string \<Rightarrow> bool" where
  "is_pair e \<longleftrightarrow> entry_projectId e \<noteq> [] \<and> entry_token e \<noteq> []"

definition entries :: "string \<Rightarrow> string list" where
  "entries raw = map js_trim (js_split CHR '','' raw)"

text \<open>The specification's reading of an entry, for comparison: split on the first colon
  into \<open>(projectId, token)\<close>, the token being all that follows that colon.\<close>

definition spec_split_first_colon :: "string \<Rightarrow> string \<times> string" where
  "spec_split_first_colon e =
     (takeWhile (\<lambda>x. x \<noteq> CHR '':'') e, tl (dropWhile (\<lambda>x. x \<noteq> CHR '':'') e))"

section \<open>Requests\<close>

text \<open>
  The two ends of \<open>request\<close>. \<open>send\<close> picks the token and issues the request, which
  gets the next number; without a token nothing is issued (the \<open>throw\<close> is caught in
  \<open>request\<close> itself and becomes \<open>CommError\<close>). \<open>received\<close> is what the caller gets
  when the answer is in: the body, or the failure the catch block throws. \<open>request\<close>
  itself follows below, with what happens while an answer is awaited.
\<close>

definition token_for :: "YApiService \<Rightarrow> string \<Rightarrow> string" where
  "token_for st projectId = (if projectId \<noteq> [] then getToken st projectId else defaultToken st)"

definition send :: "YApiService \<Rightarrow> endpoint \<Rightarrow> string \<Rightarrow> nat option \<times> YApiService" where
  "send st ep projectId =
     (if token_for st projectId = [] then (None, st)
      else (Some (length (sent st)), st\<lparr>sent := sent st @ [(ep, projectId)]\<rparr>))"

definition received :: "'a axios_result \<Rightarrow> error + 'a envelope" where
  "received r =
     (case r of
        Response body \<Rightarrow> Inr body
      | ErrorResponse status m \<Rightarrow> Inl (HttpError status m)
      | NetworkError \<Rightarrow> Inl CommError)"

section \<open>Cached look-ups and \<open>Promise.all\<close>\<close>

text \<open>
  \<open>getProjectInfo\<close> and \<open>getCategoryList\<close> are only ever called from inside
  \<open>Promise.all(ids.map(...))\<close>: \<open>map\<close> starts the calls one after the other, each
  running up to its first \<open>await\<close> of a network answer, and the answers come in later, in
  the order of their \<open>arrival\<close>. So each function is modelled in two steps. The start
  looks into the cache and, on a miss, issues the request; a call that needs no network
  answer (a cache hit, or \<open>request\<close> throwing for want of a token) is settled at once.
  The finish runs when the answer arrives: it checks \<open>errcode\<close> and stores the data in
  the cache.
\<close>

datatype 'a started = Settled "error + 'a" | Waiting nat

definition getProjectInfo_start :: "YApiService \<Rightarrow> string \<Rightarrow> ProjectInfo started \<times> YApiService" where
  "getProjectInfo_start st projectId =
     (case map_of (projectInfoCache st) projectId of
        Some info \<Rightarrow> (Settled (Inr info), st)
      | None \<Rightarrow>
          (case send st Project_get projectId of
             (None, st') \<Rightarrow> (Settled (Inl CommError), st')
           | (Some k, st') \<Rightarrow> (Waiting k, st')))"

definition getProjectInfo_answer :: "Remote \<Rightarrow> string \<Rightarrow> nat \<Rightarrow> error + ProjectInfo" where
  "getProjectInfo_answer env projectId k =
     (case received (project_get env k projectId) of
        Inl e \<Rightarrow> Inl e
      | Inr response \<Rightarrow>
          if errcode response \<noteq> 0 then Inl (AppError (errmsg response))
          else Inr (data response))"

definition getProjectInfo_finish ::
  "Remote \<Rightarrow> string \<Rightarrow> nat \<Rightarrow> YApiService \<Rightarrow> (error + ProjectInfo) \<times> YApiService"
where
  "getProjectInfo_finish env projectId k st =
     (case getProjectInfo_answer env projectId k of
        Inl e \<Rightarrow> (Inl e, st)
      | Inr info \<Rightarrow>
          (Inr info, st\<lparr>projectInfoCache := AList.update projectId info (projectInfoCache st)\<rparr>))"

definition getCategoryList_start ::
  "YApiService \<Rightarrow> string \<Rightarrow> CategoryInfo list started \<times> YApiService"
where
  "getCategoryList_start st projectId =
     (case map_of (categoryListCache st) projectId of
        Some cats \<Rightarrow> (Settled (Inr cats), st)
      | None \<Rightarrow>
          (case send st GetCatMenu projectId of
             (None, st') \<Rightarrow> (Settled (Inl CommError), st')
           | (Some k, st') \<Rightarrow> (Waiting k, st')))"

definition getCategoryList_answer :: "Remote \<Rightarrow> string \<Rightarrow> nat \<Rightarrow> error + CategoryInfo list" where
  "getCategoryList_answer env projectId k =
     (case received (getCatMenu env k projectId) of
        Inl e \<Rightarrow> Inl e
      | Inr response \<Rightarrow>
          if errcode response \<noteq> 0 then Inl (AppError (errmsg response))
          else Inr (data response))"

definition getCategoryList_finish ::
  "Remote \<Rightarrow> string \<Rightarrow> nat \<Rightarrow> YApiService \<Rightarrow> (error + CategoryInfo list) \<times> YApiService"
where
  "getCategoryList_finish env projectId k st =
     (case getCategoryList_answer env projectId k of
        Inl e \<Rightarrow> (Inl e, st)
      | Inr cats \<Rightarrow>
          (Inr cats, st\<lparr>categoryListCache := AList.update projectId cats (categoryListCache st)\<rparr>))"

text \<open>\<open>ids.map(id => f(id))\<close>: the calls are started in the order of the list.\<close>

fun start_all ::
  "('s \<Rightarrow> 'k \<Rightarrow> 'a started \<times> 's) \<Rightarrow> 'k list \<Rightarrow> 's \<Rightarrow> ('k \<times> 'a started) list \<times> 's"
where
  "start_all f [] s = ([], s)"
| "start_all f (k # ks) s =
     (case f s k of
        (x, s1) \<Rightarrow> (case start_all f ks s1 of (xs, s2) \<Rightarrow> ((k, x) # xs, s2)))"

fun waiting_of :: "('k \<times> 'a started) list \<Rightarrow> ('k \<times> nat) list" where
  "waiting_of [] = []"
| "waiting_of ((p, Waiting k) # xs) = (p, k) # waiting_of xs"
| "waiting_of ((p, Settled r) # xs) = waiting_of xs"

fun is_rejected :: "'a started \<Rightarrow> bool" where
  "is_rejected (Settled (Inl e)) = True"
| "is_rejected (Settled (Inr v)) = False"
| "is_rejected (Waiting k) = False"

text \<open>The answer to a request that no caller waits for any more is handled when it
  arrives: the function that sent the request goes on, and stores the data.\<close>

definition deliver :: "Remote \<Rightarrow> endpoint \<times> string \<times> nat \<Rightarrow> YApiService \<Rightarrow> YApiService" where
  "deliver env w st =
     (case w of
        (Project_get, projectId, k) \<Rightarrow> snd (getProjectInfo_finish env projectId k st)
      | (GetCatMenu, projectId, k) \<Rightarrow> snd (getCategoryList_finish env projectId k st)
      | _ \<Rightarrow> st)"

text \<open>
  \<open>await Promise.all(...)\<close> inside \<open>try\<close>/\<open>catch\<close>. While the function waits, the
  answers are handled one by one as they arrive: those to the requests of this call, and
  those to older requests that were still in flight when it began (the requests numbered
  below \<open>first\<close>), which are delivered. The wait ends when the \<open>n\<close> answers this call
  waits for are all in, or with the first of them that fails: that one rejects the
  promise, and the function that awaits it goes on at once. The requests not yet answered
  are not cancelled. The result is the state at the moment the promise is settled, and the
  requests then in flight.
\<close>

fun await_all ::
  "(endpoint \<times> string \<times> nat \<Rightarrow> 's \<Rightarrow> 's) \<Rightarrow> (string \<Rightarrow> nat \<Rightarrow> 's \<Rightarrow> (error + 'a) \<times> 's) \<Rightarrow>
   nat \<Rightarrow> nat \<Rightarrow> (endpoint \<times> string \<times> nat) list \<Rightarrow> 's \<Rightarrow> 's \<times> (endpoint \<times> string \<times> nat) list"
where
  "await_all older fin first n [] s = (s, [])"
| "await_all older fin first n ((ep, p, k) # rest) s =
     (if n = 0 then (s, (ep, p, k) # rest)
      else if k < first then await_all older fin first n rest (older (ep, p, k) s)
      else (case fin p k s of
              (Inl e, s') \<Rightarrow> (s', rest)
            | (Inr v, s') \<Rightarrow> await_all older fin first (n - 1) rest s'))"

text \<open>The requests in flight, in the order in which their answers arrive (requests whose
  answers arrive together keep their order).\<close>

definition in_order_of_arrival ::
  "Remote \<Rightarrow> (endpoint \<times> string \<times> nat) list \<Rightarrow> (endpoint \<times> string \<times> nat) list"
where
  "in_order_of_arrival env ws = sort_key (\<lambda>w. arrival env (snd (snd w))) ws"

text \<open>
  A request that its caller awaits at once: \<open>answer k\<close> is the remote service's answer
  to request number \<open>k\<close>. While the caller waits for it, the older answers that arrive
  before it are delivered.
\<close>

definition await_answer :: "Remote \<Rightarrow> endpoint \<times> string \<times> nat \<Rightarrow> YApiService \<Rightarrow> YApiService" where
  "await_answer env w st =
     (case await_all (deliver env) (\<lambda>p k s. (Inr (), s)) (snd (snd w)) 1
             (in_order_of_arrival env (inflight st @ [w])) st of
        (st2, rest) \<Rightarrow> st2\<lparr>inflight := rest\<rparr>)"

definition request ::
  "Remote \<Rightarrow> YApiService \<Rightarrow> endpoint \<Rightarrow> string \<Rightarrow> (nat \<Rightarrow> 'a axios_result) \<Rightarrow>
   (error + 'a envelope) \<times> YApiService"
where
  "request env st ep projectId answer =
     (case send st ep projectId of
        (None, st') \<Rightarrow> (Inl CommError, st')
      | (Some k, st') \<Rightarrow> (received (answer k), await_answer env (ep, projectId, k) st'))"

definition Promise_all ::
  "Remote \<Rightarrow> endpoint \<Rightarrow> (YApiService \<Rightarrow> string \<Rightarrow> 'a started \<times> YApiService) \<Rightarrow>
   (string \<Rightarrow> nat \<Rightarrow> YApiService \<Rightarrow> (error + 'a) \<times> YApiService) \<Rightarrow>
   string list \<Rightarrow> YApiService \<Rightarrow> YApiService"
where
  "Promise_all env ep start fin ids st =
     (case start_all start ids st of
        (started, st1) \<Rightarrow>
          (let waiting = map (\<lambda>w. (ep, fst w, snd w)) (waiting_of started);
               pending = in_order_of_arrival env (inflight st1 @ waiting)
           in if list_ex (\<lambda>x. is_rejected (snd x)) started then st1\<lparr>inflight := pending\<rparr>
              else if waiting = [] then st1
              else (case await_all (deliver env) fin (length (sent st)) (length waiting)
                           pending st1 of
                      (st2, rest) \<Rightarrow> st2\<lparr>inflight := rest\<rparr>)))"

definition loadAllProjectInfo :: "Remote \<Rightarrow> YApiService \<Rightarrow> YApiService" where
  "loadAllProjectInfo env st =
     (let projectIds = getConfiguredProjectIds st
      in if projectIds = [] then st
         else Promise_all env Project_get getProjectInfo_start (getProjectInfo_finish env)
                projectIds st)"

definition loadAllCategoryLists :: "Remote \<Rightarrow> YApiService \<Rightarrow> YApiService" where
  "loadAllCategoryLists env st =
     (let projectIds = map fst (projectInfoCache st)
      in if projectIds = [] then st
         else Promise_all env GetCatMenu getCategoryList_start (getCategoryList_finish env)
                projectIds st)"

text \<open>\<open>settle\<close> is the state once the answers to all requests in flight have
  arrived.\<close>

definition settle :: "Remote \<Rightarrow> YApiService \<Rightarrow> YApiService" where
  "settle env st =
     fold (deliver env) (sort_key (\<lambda>w. arrival env (snd (snd w))) (inflight st))
       (st\<lparr>inflight := []\<rparr>)"

section \<open>Saving an interface\<close>

definition saveInterface ::
  "Remote \<Rightarrow> YApiService \<Rightarrow> SaveApiInterfaceParams \<Rightarrow>
   (error + SaveData option envelope) \<times> YApiService"
where
  "saveInterface env st params =
     (let projectId = sp_project_id params;
          isAdd = \<not> truthy (sp_id params);
          endpoint = (if isAdd then Interface_add else Interface_up)
      in case request env st endpoint projectId (\<lambda>k. interface_save env k endpoint params) of
           (Inl e, st') \<Rightarrow> (Inl e, st')
         | (Inr response, st') \<Rightarrow>
             if errcode response \<noteq> 0 then (Inl (AppError (errmsg response)), st')
             else (Inr response, st'))"

text \<open>
  The arguments of the tool \<open>yapi_save_api\<close> (its zod schema) and what its handler
  returns. The handler returns a text; the three texts it can return are the constructors
  of \<open>tool_text\<close>: \<open>JsonParseError\<close> is the text that begins with the name of a
  field followed by \<open>JSON\<close> and the parse error, \<open>SaveError\<close> is the text of the outer
  catch block, \<open>SaveSuccess\<close> is the success text with the flag that chooses between
  "updated" and "added", the interface id of the response (\<open>None\<close> is printed as
  \<open>undefined\<close>), the title, the method and the path. What the outer catch block
  catches is a \<open>SyntaxError\<close> of \<open>JSON.parse\<close>, the \<open>TypeError\<close> of reading
  \<open>_id\<close> of a response without \<open>data\<close>, or what \<open>saveInterface\<close> throws.
\<close>

record SaveArgs =
  arg_projectId :: string
  arg_catid :: string
  arg_id :: "string option"
  arg_title :: string
  arg_path :: string
  arg_method :: string
  arg_status :: "string option"
  arg_tag :: "string option"
  arg_req_params :: "string option"
  arg_req_query :: "string option"
  arg_req_headers :: "string option"
  arg_req_body_type :: "string option"
  arg_req_body_form :: "string option"
  arg_req_body_other :: "string option"
  arg_req_body_is_json_schema :: "bool option"
  arg_res_body_type :: "string option"
  arg_res_body :: "string option"
  arg_res_body_is_json_schema :: "bool option"
  arg_switch_notice :: "bool option"
  arg_api_opened :: "bool option"
  arg_desc :: "string option"
  arg_markdown :: "string option"

datatype field = Req_params | Req_query | Req_headers | Req_body_form

datatype thrown = SyntaxError | TypeError | Thrown error

datatype tool_text =
    JsonParseError field
  | SaveError thrown
  | SaveSuccess bool "int option" string string string

text \<open>\<open>x || d\<close> and \<open>if (x) params.f = x\<close> for an optional string.\<close>

definition or_default :: "string option \<Rightarrow> string \<Rightarrow> string" where
  "or_default x d = (case x of None \<Rightarrow> d | Some s \<Rightarrow> if s \<noteq> [] then s else d)"

definition if_given :: "string option \<Rightarrow> string option" where
  "if_given x = (if truthy x then x else None)"

text \<open>
  \<open>JSON.parse\<close> belongs to the JavaScript runtime; the handler takes it as a parameter,
  a function that returns \<open>None\<close> where \<open>JSON.parse\<close> throws. \<open>parse_given\<close> is
  \<open>if (x) { params.f = JSON.parse(x) }\<close>: the outer \<open>None\<close> is the throw, \<open>Some None\<close>
  a field that was not given.
\<close>

definition parse_given :: "(string \<Rightarrow> json option) \<Rightarrow> string option \<Rightarrow> json option option" where
  "parse_given JSON_parse x =
     (case x of
        None \<Rightarrow> Some None
      | Some s \<Rightarrow> if s = [] then Some None else map_option Some (JSON_parse s))"

text \<open>\<open>tag ? JSON.parse(tag) : []\<close>, inside the outer \<open>try\<close> of the handler.\<close>

definition parse_tag :: "(string \<Rightarrow> json option) \<Rightarrow> string option \<Rightarrow> json option" where
  "parse_tag JSON_parse x =
     (case x of
        None \<Rightarrow> Some (JArray [])
      | Some t \<Rightarrow> if t = [] then Some (JArray []) else JSON_parse t)"

text \<open>The first part of the handler: the parameters are built field by field; a text is
  returned as soon as one field fails to parse.\<close>

definition save_params :: "(string \<Rightarrow> json option) \<Rightarrow> SaveArgs \<Rightarrow> tool_text + SaveApiInterfaceParams" where
  "save_params JSON_parse a =
     (case parse_tag JSON_parse (arg_tag a) of
        None \<Rightarrow> Inl (SaveError SyntaxError)
      | Some tag \<Rightarrow>
     (case parse_given JSON_parse (arg_req_params a) of
        None \<Rightarrow> Inl (JsonParseError Req_params)
      | Some req_params \<Rightarrow>
     (case parse_given JSON_parse (arg_req_query a) of
        None \<Rightarrow> Inl (JsonParseError Req_query)
      | Some req_query \<Rightarrow>
     (case parse_given JSON_parse (arg_req_headers a) of
        None \<Rightarrow> Inl (JsonParseError Req_headers)
      | Some req_headers \<Rightarrow>
     (case parse_given JSON_parse (arg_req_body_form a) of
        None \<Rightarrow> Inl (JsonParseError Req_body_form)
      | Some req_body_form \<Rightarrow>
          Inr \<lparr>sp_project_id = arg_projectId a,
               sp_catid = arg_catid a,
               sp_id = if_given (arg_id a),
               sp_title = arg_title a,
               sp_path = arg_path a,
               sp_method = arg_method a,
               sp_status = or_default (arg_status a) ''undone'',
               sp_tag = tag,
               sp_desc = or_default (arg_desc a) [],
               sp_markdown = or_default (arg_markdown a) [],
               sp_req_params = req_params,
               sp_req_query = req_query,
               sp_req_headers = req_headers,
               sp_req_body_type = if_given (arg_req_body_type a),
               sp_req_body_form = req_body_form,
               sp_req_body_other = if_given (arg_req_body_other a),
               sp_req_body_is_json_schema = arg_req_body_is_json_schema a,
               sp_res_body_type = if_given (arg_res_body_type a),
               sp_res_body = if_given (arg_res_body a),
               sp_res_body_is_json_schema = arg_res_body_is_json_schema a,
               sp_switch_notice = arg_switch_notice a,
               sp_api_opened = arg_api_opened a\<rparr>)))))"

definition yapi_save_api ::
  "(string \<Rightarrow> json option) \<Rightarrow> Remote \<Rightarrow> YApiService \<Rightarrow> SaveArgs \<Rightarrow> tool_text \<times> YApiService"
where
  "yapi_save_api JSON_parse env st a =
     (case save_params JSON_parse a of
        Inl text \<Rightarrow> (text, st)
      | Inr params \<Rightarrow>
          (case saveInterface env st params of
             (Inl e, st') \<Rightarrow> (SaveError (Thrown e), st')
           | (Inr response, st') \<Rightarrow>
               (case data response of
                  None \<Rightarrow> (SaveError TypeError, st')
                | Some d \<Rightarrow>
                    (SaveSuccess (truthy (arg_id a)) (sd_id d) (arg_title a) (arg_method a)
                       (arg_path a), st'))))"

text \<open>For stating which field failed: the argument that belongs to a field, and
  "\<open>JSON.parse\<close> is called on this argument and throws".\<close>

definition field_arg :: "SaveArgs \<Rightarrow> field \<Rightarrow> string option" where
  "field_arg a f =
     (case f of
        Req_params \<Rightarrow> arg_req_params a
      | Req_query \<Rightarrow> arg_req_query a
      | Req_headers \<Rightarrow> arg_req_headers a
      | Req_body_form \<Rightarrow> arg_req_body_form a)"

definition parse_fails :: "(string \<Rightarrow> json option) \<Rightarrow> string option \<Rightarrow> bool" where
  "parse_fails JSON_parse x = (case x of None \<Rightarrow> False | Some s \<Rightarrow> s \<noteq> [] \<and> JSON_parse s = None)"

text \<open>
  For the closed instances below: a reader of JSON texts that knows the empty array, the
  empty object and the three literals, and takes any other text for a syntax error. The
  instances use it on \<open>[]\<close> and on texts that are not JSON, where it agrees with
  \<open>JSON.parse\<close>. \<open>accepting\<close> is a remote service that answers every request with
  \<open>errcode\<close> 0, and a save with the interface id 66; \<open>without_data\<close> answers a save
  with \<open>errcode\<close> 0 and no \<open>data\<close>.
\<close>

definition JSON_parse_literals :: "string \<Rightarrow> json option" where
  "JSON_parse_literals s =
     (let t = js_trim s
      in if t = ''[]'' then Some (JArray [])
         else if t = ''{}'' then Some (JObject [])
         else if t = ''null'' then Some JNull
         else if t = ''true'' then Some (JBool True)
         else if t = ''false'' then Some (JBool False)
         else None)"

definition accepting :: Remote where
  "accepting =
     \<lparr>project_get = (\<lambda>k p. Response \<lparr>errcode = 0, errmsg = [],
          data = \<lparr>pi_id = 10, pi_name = ''Shop'', pi_desc = [], pi_basepath = [], pi_group_id = 1\<rparr>\<rparr>),
      getCatMenu = (\<lambda>k p. Response \<lparr>errcode = 0, errmsg = [], data = []\<rparr>),
      list_menu = (\<lambda>k p. Response \<lparr>errcode = 0, errmsg = [], data = []\<rparr>),
      interface_save = (\<lambda>k ep params.
        Response \<lparr>errcode = 0, errmsg = [], data = Some \<lparr>sd_id = Some 66\<rparr>\<rparr>),
      arrival = (\<lambda>k. k)\<rparr>"

definition login_args :: SaveArgs where
  "login_args =
     \<lparr>arg_projectId = ''10'', arg_catid = ''3'', arg_id = None, arg_title = ''Login'',
      arg_path = ''/login'', arg_method = ''POST'', arg_status = None, arg_tag = Some ''[]'',
      arg_req_params = None, arg_req_query = None, arg_req_headers = None,
      arg_req_body_type = None, arg_req_body_form = None, arg_req_body_other = None,
      arg_req_body_is_json_schema = None, arg_res_body_type = None, arg_res_body = None,
      arg_res_body_is_json_schema = None, arg_switch_notice = None, arg_api_opened = None,
      arg_desc = None, arg_markdown = None\<rparr>"

definition without_data :: Remote where
  "without_data =
     accepting\<lparr>interface_save :=
       (\<lambda>k ep params. Response \<lparr>errcode = 0, errmsg = [], data = None\<rparr>)\<rparr>"

section \<open>Searching\<close>

definition getInterfaceMenu ::
  "Remote \<Rightarrow> YApiService \<Rightarrow> string \<Rightarrow> (error + MenuCategory list) \<times> YApiService"
where
  "getInterfaceMenu env st projectId =
     (case request env st List_menu projectId (\<lambda>k. list_menu env k projectId) of
        (Inl e, st') \<Rightarrow> (Inl e, st')
      | (Inr response, st') \<Rightarrow>
          if errcode response \<noteq> 0 then (Inl (AppError (errmsg response)), st')
          else (Inr (data response), st'))"

record QueryParams =
  q_keyword :: "string option"
  q_path :: "string option"
  q_tag :: "string list option"

text \<open>The category tree flattened: every interface of a category that has a list, with
  the name and the id of its category.\<close>

definition flatten_menu :: "MenuCategory list \<Rightarrow> ApiItem list" where
  "flatten_menu menuData =
     fold (\<lambda>category allInterfaces.
             case mc_list category of
               None \<Rightarrow> allInterfaces
             | Some l \<Rightarrow>
                 allInterfaces @
                 map (\<lambda>api. api\<lparr>a_cat_name := Some (mc_name category), a_catid := mc_id category\<rparr>) l)
          menuData []"

text \<open>
  The callbacks of the three filters. The first two test \<open>typeof\<close> before they touch the
  field, so they never throw; the third converts every tag it looks at with \<open>String\<close>,
  which may throw.
\<close>

definition title_matches :: "string \<Rightarrow> ApiItem \<Rightarrow> bool option" where
  "title_matches keyword item =
     Some (case a_title item of
             None \<Rightarrow> False
           | Some t \<Rightarrow> t \<noteq> [] \<and> js_includes (toLowerCase t) keyword)"

definition path_matches :: "string \<Rightarrow> ApiItem \<Rightarrow> bool option" where
  "path_matches pathKeyword item =
     Some (case a_path item of
             None \<Rightarrow> False
           | Some t \<Rightarrow> t \<noteq> [] \<and> js_includes (toLowerCase t) pathKeyword)"

definition tag_matches :: "string list \<Rightarrow> ApiItem \<Rightarrow> bool option" where
  "tag_matches tagKeywords item =
     (case a_tag item of
        None \<Rightarrow> Some False
      | Some tags \<Rightarrow>
          js_some (\<lambda>tag. js_some (\<lambda>keyword.
                     if truthy_json tag
                     then map_option (\<lambda>s. js_includes (toLowerCase s) keyword) (String_json tag)
                     else Some False)
                   tagKeywords)
            tags)"

text \<open>
  \<open>try { filteredResults = filteredResults.filter(...) } catch (e) { log }\<close>: when the
  filter throws, the assignment does not happen and the list stays as it was.
\<close>

definition try_filter :: "('a \<Rightarrow> bool option) \<Rightarrow> 'a list \<Rightarrow> 'a list" where
  "try_filter p filteredResults =
     (case js_filter p filteredResults of
        None \<Rightarrow> filteredResults
      | Some kept \<Rightarrow> kept)"

text \<open>The three filter blocks of \<open>searchWithSingleKeyword\<close>, each run only when its
  keyword is given.\<close>

definition filter_by_name :: "QueryParams \<Rightarrow> ApiItem list \<Rightarrow> ApiItem list" where
  "filter_by_name queryParams filteredResults =
     (if truthy (q_keyword queryParams)
      then try_filter (title_matches (toLowerCase (the (q_keyword queryParams)))) filteredResults
      else filteredResults)"

definition filter_by_path :: "QueryParams \<Rightarrow> ApiItem list \<Rightarrow> ApiItem list" where
  "filter_by_path queryParams filteredResults =
     (if truthy (q_path queryParams)
      then try_filter (path_matches (toLowerCase (the (q_path queryParams)))) filteredResults
      else filteredResults)"

definition filter_by_tag :: "QueryParams \<Rightarrow> ApiItem list \<Rightarrow> ApiItem list" where
  "filter_by_tag queryParams filteredResults =
     (case q_tag queryParams of
        None \<Rightarrow> filteredResults
      | Some tags \<Rightarrow>
          if tags \<noteq> [] then try_filter (tag_matches (map toLowerCase tags)) filteredResults
          else filteredResults)"

text \<open>
  \<open>searchWithSingleKeyword\<close>. Its parameters \<open>page\<close> and \<open>limit\<close> are not used in its
  body. The checks at its head convert values that are not strings; on strings they change
  nothing. \<open>sort\<close> with the comparator \<open>(b._id || 0) - (a._id || 0)\<close> is a stable sort
  by descending id. The \<open>catch\<close> of the whole body returns the empty result; what reaches
  it is a failure of the menu fetch, the filters having a \<open>catch\<close> of their own.
\<close>

definition searchWithSingleKeyword ::
  "Remote \<Rightarrow> YApiService \<Rightarrow> string \<Rightarrow> QueryParams \<Rightarrow> int \<Rightarrow> int \<Rightarrow> SearchResult \<times> YApiService"
where
  "searchWithSingleKeyword env st projectId queryParams page limit =
     (case getInterfaceMenu env st projectId of
        (Inl e, st') \<Rightarrow> (\<lparr>res_total = 0, res_list = []\<rparr>, st')
      | (Inr menuData, st') \<Rightarrow>
          (let allInterfaces = flatten_menu menuData;
               filteredResults =
                 filter_by_tag queryParams
                   (filter_by_path queryParams (filter_by_name queryParams allInterfaces));
               filteredResults = sort_key (\<lambda>a. - a_id a) filteredResults
           in (\<lparr>res_total = length filteredResults, res_list = filteredResults\<rparr>, st')))"

text \<open>\<open>deduplicateResults\<close>: \<open>seen\<close> is the set of the ids, as strings, of the items kept
  so far.\<close>

fun dedup_from :: "string set \<Rightarrow> ApiItem list \<Rightarrow> ApiItem list" where
  "dedup_from seen [] = []"
| "dedup_from seen (item # rest) =
     (let id = String_num (a_id item)
      in if id \<in> seen then dedup_from seen rest
         else item # dedup_from (insert id seen) rest)"

definition deduplicateResults :: "ApiItem list \<Rightarrow> ApiItem list" where
  "deduplicateResults results = dedup_from {} results"

text \<open>
  The callback that adds the project name and the category name to one item. \<open>outcome\<close>
  is what its \<open>await this.getCategoryList(projectId)\<close> ended in; a failure is caught and
  only the category name is left as it was. (\<open>String(item.catid)\<close> of a number is never
  empty, so the look-up is always made.)
\<close>

definition with_project_info :: "ProjectInfo \<Rightarrow> error + CategoryInfo list \<Rightarrow> ApiItem \<Rightarrow> ApiItem" where
  "with_project_info project outcome item =
     (let result = item\<lparr>a_project_name := Some (pi_name project)\<rparr>
      in case outcome of
           Inl e \<Rightarrow> result
         | Inr categories \<Rightarrow>
             (case find (\<lambda>cat. String_num (ci_id cat) = String_num (a_catid item)) categories of
                None \<Rightarrow> result
              | Some category \<Rightarrow> result\<lparr>a_cat_name := Some (ci_name category)\<rparr>))"

text \<open>
  \<open>Promise.all(projectResults.list.map(async (item) => ...))\<close>: one call of
  \<open>getCategoryList\<close> is started per item, all before any answer is in. No callback
  rejects, so the promise is fulfilled when all answers have arrived, with the results in
  the order of the items. Older answers that arrive in between are delivered.
\<close>

definition outcome_of :: "Remote \<Rightarrow> string \<times> CategoryInfo list started \<Rightarrow> error + CategoryInfo list" where
  "outcome_of env x =
     (case snd x of
        Settled r \<Rightarrow> r
      | Waiting k \<Rightarrow> getCategoryList_answer env (fst x) k)"

definition add_project_info ::
  "Remote \<Rightarrow> YApiService \<Rightarrow> ProjectInfo \<Rightarrow> string \<Rightarrow> ApiItem list \<Rightarrow> ApiItem list \<times> YApiService"
where
  "add_project_info env st project projectId items =
     (case start_all getCategoryList_start (map (\<lambda>item. projectId) items) st of
        (started, st1) \<Rightarrow>
          (let waiting = map (\<lambda>w. (GetCatMenu, fst w, snd w)) (waiting_of started);
               pending = in_order_of_arrival env (inflight st1 @ waiting);
               resultsWithProjectInfo =
                 map2 (with_project_info project) (map (outcome_of env) started) items
           in if waiting = [] then (resultsWithProjectInfo, st1)
              else (case await_all (deliver env)
                           (\<lambda>p k s. (Inr (), snd (getCategoryList_finish env p k s)))
                           (length (sent st)) (length waiting) pending st1 of
                      (st2, rest) \<Rightarrow> (resultsWithProjectInfo, st2\<lparr>inflight := rest\<rparr>))))"

text \<open>The body of the innermost loop of \<open>searchApis\<close>, on the pair of \<open>allResults\<close> and
  the service.\<close>

definition search_combination ::
  "Remote \<Rightarrow> int \<Rightarrow> int \<Rightarrow> ProjectInfo \<Rightarrow> string \<Rightarrow> string \<Rightarrow> string \<Rightarrow>
   ApiItem list \<times> YApiService \<Rightarrow> ApiItem list \<times> YApiService"
where
  "search_combination env page limit project nameKey pathKey tagKey acc =
     (case acc of
        (allResults, st) \<Rightarrow>
          (let projectId = String_num (pi_id project);
               queryParams = \<lparr>q_keyword = (if nameKey \<noteq> [] then Some nameKey else None),
                              q_path = (if pathKey \<noteq> [] then Some pathKey else None),
                              q_tag = (if tagKey \<noteq> [] then Some [tagKey] else None)\<rparr>
           in case searchWithSingleKeyword env st projectId queryParams page limit of
                (projectResults, st1) \<Rightarrow>
                  (case add_project_info env st1 project projectId (res_list projectResults) of
                     (resultsWithProjectInfo, st2) \<Rightarrow>
                       (allResults @ resultsWithProjectInfo, st2))))"

text \<open>The four nested loops; a class of keywords that is empty is run once, with the
  empty string.\<close>

definition or_blank :: "string list \<Rightarrow> string list" where
  "or_blank keywords = (if keywords \<noteq> [] then keywords else [[]])"

definition search_projects ::
  "Remote \<Rightarrow> int \<Rightarrow> int \<Rightarrow> string list \<Rightarrow> string list \<Rightarrow> string list \<Rightarrow> ProjectInfo list \<Rightarrow>
   ApiItem list \<times> YApiService \<Rightarrow> ApiItem list \<times> YApiService"
where
  "search_projects env page limit nameKeywords pathKeywords tagKeywords projects acc =
     fold (\<lambda>project.
       fold (\<lambda>nameKey.
         fold (\<lambda>pathKey.
           fold (\<lambda>tagKey. search_combination env page limit project nameKey pathKey tagKey)
             (or_blank tagKeywords))
           (or_blank pathKeywords))
         (or_blank nameKeywords))
       projects acc"

datatype keyword_arg = KeywordArray "string list" | KeywordString string

record SearchOptions =
  projectKeyword :: "string option"
  nameKeyword :: "keyword_arg option"
  pathKeyword :: "keyword_arg option"
  tagKeyword :: "keyword_arg option"
  page :: "int option"
  limit :: "int option"
  maxProjects :: "int option"

text \<open>\<open>Array.isArray(k) ? k : k ? [k] : []\<close>.\<close>

definition keywords_of :: "keyword_arg option \<Rightarrow> string list" where
  "keywords_of k =
     (case k of
        None \<Rightarrow> []
      | Some (KeywordArray ks) \<Rightarrow> ks
      | Some (KeywordString s) \<Rightarrow> if s \<noteq> [] then [s] else [])"

definition page_of :: "SearchOptions \<Rightarrow> int" where
  "page_of options = (case page options of None \<Rightarrow> 1 | Some n \<Rightarrow> n)"

definition limit_of :: "SearchOptions \<Rightarrow> int" where
  "limit_of options = (case limit options of None \<Rightarrow> 20 | Some n \<Rightarrow> n)"

definition maxProjects_of :: "SearchOptions \<Rightarrow> int" where
  "maxProjects_of options = (case maxProjects options of None \<Rightarrow> 5 | Some n \<Rightarrow> n)"

text \<open>Step 1 of \<open>searchApis\<close>, after the projects are loaded: the projects of the cache,
  in its order, filtered by the project keyword and cut to the first \<open>maxProjects\<close>.\<close>

definition project_matches :: "string \<Rightarrow> ProjectInfo \<Rightarrow> bool" where
  "project_matches keyword project =
     (let name = toLowerCase (pi_name project);
          desc = toLowerCase (pi_desc project);
          id = (if pi_id project = 0 then [] else String_num (pi_id project))
      in js_includes name keyword \<or> js_includes desc keyword \<or> js_includes id keyword)"

definition candidate_projects :: "YApiService \<Rightarrow> SearchOptions \<Rightarrow> ProjectInfo list" where
  "candidate_projects st options =
     (let projects = map snd (projectInfoCache st);
          projects = (case projectKeyword options of
                        None \<Rightarrow> projects
                      | Some k \<Rightarrow>
                          if js_trim k \<noteq> []
                          then filter (project_matches (toLowerCase (js_trim k))) projects
                          else projects)
      in if int (length projects) > maxProjects_of options
         then slice0 projects (maxProjects_of options)
         else projects)"

definition searchApis :: "Remote \<Rightarrow> YApiService \<Rightarrow> SearchOptions \<Rightarrow> SearchResult \<times> YApiService" where
  "searchApis env st options =
     (let st1 = loadAllProjectInfo env st;
          projects = candidate_projects st1 options
      in if projects = [] then (\<lparr>res_total = 0, res_list = []\<rparr>, st1)
         else
           (case search_projects env (page_of options) (limit_of options)
                   (keywords_of (nameKeyword options)) (keywords_of (pathKeyword options))
                   (keywords_of (tagKeyword options)) projects ([], st1) of
              (allResults, st2) \<Rightarrow>
                (let deduplicated = deduplicateResults allResults;
                     limitedResults = slice0 deduplicated (limit_of options)
                 in (\<lparr>res_total = length deduplicated, res_list = limitedResults\<rparr>, st2))))"

definition searchApisByName ::
  "Remote \<Rightarrow> YApiService \<Rightarrow> string \<Rightarrow> string option \<Rightarrow> int option \<Rightarrow> int option \<Rightarrow> int option \<Rightarrow>
   SearchResult \<times> YApiService"
where
  "searchApisByName env st nameKey projectKey pg lim maxP =
     searchApis env st
       \<lparr>projectKeyword = projectKey, nameKeyword = Some (KeywordArray [nameKey]),
        pathKeyword = None, tagKeyword = None,
        page = Some (case pg of None \<Rightarrow> 1 | Some n \<Rightarrow> n),
        limit = Some (case lim of None \<Rightarrow> 20 | Some n \<Rightarrow> n),
        maxProjects = Some (case maxP of None \<Rightarrow> 5 | Some n \<Rightarrow> n)\<rparr>"

definition searchApisByPath ::
  "Remote \<Rightarrow> YApiService \<Rightarrow> string \<Rightarrow> string option \<Rightarrow> int option \<Rightarrow> int option \<Rightarrow> int option \<Rightarrow>
   SearchResult \<times> YApiService"
where
  "searchApisByPath env st pathKey projectKey pg lim maxP =
     searchApis env st
       \<lparr>projectKeyword = projectKey, nameKeyword = None,
        pathKeyword = Some (KeywordArray [pathKey]), tagKeyword = None,
        page = Some (case pg of None \<Rightarrow> 1 | Some n \<Rightarrow> n),
        limit = Some (case lim of None \<Rightarrow> 20 | Some n \<Rightarrow> n),
        maxProjects = Some (case maxP of None \<Rightarrow> 5 | Some n \<Rightarrow> n)\<rparr>"

text \<open>For the statements below: the list \<open>allResults\<close> that a search builds before it
  removes the duplicates.\<close>

definition all_results :: "Remote \<Rightarrow> YApiService \<Rightarrow> SearchOptions \<Rightarrow> ApiItem list" where
  "all_results env st options =
     fst (search_projects env (page_of options) (limit_of options)
            (keywords_of (nameKeyword options)) (keywords_of (pathKeyword options))
            (keywords_of (tagKeyword options))
            (candidate_projects (loadAllProjectInfo env st) options)
            ([], loadAllProjectInfo env st))"

text \<open>
  For the closed instances below: a remote service with one project, number 10, that has
  one category with three interfaces (the scenario of the specification, with one more
  interface), and a second project, number 20, with one interface.
\<close>

definition api :: "int \<Rightarrow> string \<Rightarrow> string \<Rightarrow> ApiItem" where
  "api i t p =
     \<lparr>a_id = i, a_title = Some t, a_path = Some p, a_method = ''POST'', a_catid = 0,
      a_project_id = 0, a_tag = None, a_cat_name = None, a_project_name = None\<rparr>"

definition shop_menu :: "string \<Rightarrow> MenuCategory list" where
  "shop_menu projectId =
     (if projectId = ''10''
      then [\<lparr>mc_id = 3, mc_name = ''Users'',
             mc_list = Some [api 5 ''User Login'' ''/user/login'',
                             api 9 ''Admin Login'' ''/admin/login'',
                             api 7 ''Logout'' ''/logout'']\<rparr>]
      else [\<lparr>mc_id = 4, mc_name = ''Orders'',
             mc_list = Some [api 8 ''Order List'' ''/orders'']\<rparr>])"

definition shop_project :: "string \<Rightarrow> ProjectInfo" where
  "shop_project projectId =
     (if projectId = ''10''
      then \<lparr>pi_id = 10, pi_name = ''Shop'', pi_desc = [], pi_basepath = [], pi_group_id = 1\<rparr>
      else \<lparr>pi_id = 20, pi_name = ''Orders'', pi_desc = [], pi_basepath = [], pi_group_id = 1\<rparr>)"

definition shop_categories :: "string \<Rightarrow> CategoryInfo list" where
  "shop_categories projectId =
     (if projectId = ''10''
      then [\<lparr>ci_id = 3, ci_name = ''Users'', ci_desc = [], ci_project_id = 10\<rparr>]
      else [\<lparr>ci_id = 4, ci_name = ''Orders'', ci_desc = [], ci_project_id = 20\<rparr>])"

definition shop :: Remote where
  "shop =
     \<lparr>project_get = (\<lambda>k p. Response \<lparr>errcode = 0, errmsg = [], data = shop_project p\<rparr>),
      getCatMenu = (\<lambda>k p. Response \<lparr>errcode = 0, errmsg = [], data = shop_categories p\<rparr>),
      list_menu = (\<lambda>k p. Response \<lparr>errcode = 0, errmsg = [], data = shop_menu p\<rparr>),
      interface_save = (\<lambda>k ep params.
        Response \<lparr>errcode = 0, errmsg = [], data = Some \<lparr>sd_id = Some 66\<rparr>\<rparr>),
      arrival = (\<lambda>k. k)\<rparr>"

definition no_options :: SearchOptions where
  "no_options =
     \<lparr>projectKeyword = None, nameKeyword = None, pathKeyword = None, tagKeyword = None,
      page = None, limit = None, maxProjects = None\<rparr>"

text \<open>For the statements below: the number of menu requests sent so far, and a remote
  service changed so that every menu request that fails is answered with an empty menu
  instead.\<close>

definition menu_requests :: "YApiService \<Rightarrow> nat" where
  "menu_requests st = length (filter (\<lambda>r. fst r = List_menu) (sent st))"

definition without_menu_failures :: "Remote \<Rightarrow> Remote" where
  "without_menu_failures env =
     env\<lparr>list_menu := (\<lambda>k p.
            case received (list_menu env k p) of
              Inl e \<Rightarrow> Response \<lparr>errcode = 0, errmsg = [], data = []\<rparr>
            | Inr r \<Rightarrow>
                if errcode r \<noteq> 0 then Response \<lparr>errcode = 0, errmsg = [], data = []\<rparr>
                else Response r)\<rparr>"

text \<open>For the statements below: a step of the search loops appends \<open>n\<close> blocks to
  \<open>allResults\<close>, each sorted by descending id.\<close>

definition appends_blocks ::
  "nat \<Rightarrow> (ApiItem list \<times> YApiService \<Rightarrow> ApiItem list \<times> YApiService) \<Rightarrow> bool"
where
  "appends_blocks n f \<longleftrightarrow>
     (\<forall>acc st. \<exists>blocks. length blocks = n \<and> fst (f (acc, st)) = acc @ concat blocks
        \<and> (\<forall>b \<in> set blocks. sorted_wrt (\<lambda>x y. y \<le> x) (map a_id b)))"

text \<open>For the statements below: a step that leaves the tokens and the number of menu
  requests as they are, and a remote service that answers every menu request for a
  project with the same menu.\<close>

definition no_menu_request :: "YApiService \<Rightarrow> YApiService \<Rightarrow> bool" where
  "no_menu_request st st' \<longleftrightarrow>
     token_for st' = token_for st \<and> menu_requests st' = menu_requests st"

definition answers_menu :: "Remote \<Rightarrow> string \<Rightarrow> MenuCategory list \<Rightarrow> bool" where
  "answers_menu env projectId menuData \<longleftrightarrow>
     (\<forall>k. \<exists>m. list_menu env k projectId = Response \<lparr>errcode = 0, errmsg = m, data = menuData\<rparr>)"

text \<open>The candidate projects of a search: those of the cache as it is when
  \<open>loadAllProjectInfo\<close> has returned.\<close>

definition candidates :: "Remote \<Rightarrow> YApiService \<Rightarrow> SearchOptions \<Rightarrow> ProjectInfo list" where
  "candidates env st options = candidate_projects (loadAllProjectInfo env st) options"

text \<open>For the closed instances below: the service with the tokens of both projects, and
  the remote service \<open>shop\<close> with the menu of project 10 out of reach.\<close>

definition both :: YApiService where
  "both = new_YApiService ''10:abc,20:def''"

definition flaky :: Remote where
  "flaky = shop\<lparr>list_menu := (\<lambda>k p. if p = ''10'' then NetworkError else list_menu shop k p)\<rparr>"

text \<open>For the closed instances below: the remote service \<open>shop\<close> with tags on two
  interfaces of project 10: the tag \<open>Auth\<close> on interface 5, and the one tag \<open>x\<close> on
  interface 9.\<close>

definition tagged :: "json \<Rightarrow> Remote" where
  "tagged x =
     shop\<lparr>list_menu := (\<lambda>k p.
       if p = ''10''
       then Response \<lparr>errcode = 0, errmsg = [], data =
              [\<lparr>mc_id = 3, mc_name = ''Users'',
                mc_list = Some [(api 5 ''User Login'' ''/user/login'')\<lparr>a_tag := Some [JString ''Auth'']\<rparr>,
                                (api 9 ''Admin Login'' ''/admin/login'')\<lparr>a_tag := Some [x]\<rparr>,
                                api 7 ''Logout'' ''/logout'']\<rparr>]\<rparr>
       else list_menu shop k p)\<rparr>"

section \<open>Refreshing the cache\<close>

text \<open>
  The part of class \<open>YapiMcpServer\<close> that refreshes the cache: the service, and the
  snapshot of the project map that was written last (\<open>None\<close> before the first write).
\<close>

record YapiMcpServer =
  yapiService :: YApiService
  persisted :: "(string \<times> ProjectInfo) list option"

text \<open>
  Modelled from the spec: \<open>saveToCache\<close> is a method of class \<open>ProjectInfoCache\<close> in
  \<open>cache.ts\<close>, which is not among the sources. By the specification it overwrites the
  snapshot with the mapping it is given, and a failure to write is never fatal: the call
  returns.
\<close>

definition saveToCache :: "(string \<times> ProjectInfo) list \<Rightarrow> YapiMcpServer \<Rightarrow> YapiMcpServer" where
  "saveToCache projectInfo srv = srv\<lparr>persisted := Some projectInfo\<rparr>"

text \<open>\<open>asyncUpdateCache\<close>: the projects are loaded, the snapshot is written, the category
  lists are loaded. Project answers that \<open>loadAllProjectInfo\<close> left in flight arrive
  while \<open>loadAllCategoryLists\<close> waits for its own answers, or later.\<close>

definition asyncUpdateCache :: "Remote \<Rightarrow> YapiMcpServer \<Rightarrow> YapiMcpServer" where
  "asyncUpdateCache env srv =
     (let srv1 = srv\<lparr>yapiService := loadAllProjectInfo env (yapiService srv)\<rparr>;
          srv2 = saveToCache (projectInfoCache (yapiService srv1)) srv1
      in srv2\<lparr>yapiService := loadAllCategoryLists env (yapiService srv2)\<rparr>)"

text \<open>
  For the closed instance below: the server with the tokens of both projects, before its
  first refresh; the remote service \<open>shop\<close> with the information of project 10 out of
  reach; and the same with the answers arriving in the opposite order.
\<close>

definition server_both :: YapiMcpServer where
  "server_both = \<lparr>yapiService = both, persisted = None\<rparr>"

definition shop_without_10 :: Remote where
  "shop_without_10 =
     shop\<lparr>project_get := (\<lambda>k p. if p = ''10'' then NetworkError else project_get shop k p)\<rparr>"

definition shop_20_first :: Remote where
  "shop_20_first = shop_without_10\<lparr>arrival := (\<lambda>k. 10 - k)\<rparr>"

text \<open>A server with the tokens of three projects, and \<open>shop\<close> with the information of
  project 20 out of reach.\<close>

definition server_three :: YapiMcpServer where
  "server_three = \<lparr>yapiService = new_YApiService ''10:abc,20:def,30:ghi'', persisted = None\<rparr>"

definition shop_without_20 :: Remote where
  "shop_without_20 =
     shop\<lparr>project_get := (\<lambda>k p. if p = ''20'' then NetworkError else project_get shop k p)\<rparr>"

text \<open>The same, with the answer to the third request (the one for project 30) arriving
  late, together with the answer to the sixth.\<close>

definition shop_30_late :: Remote where
  "shop_30_late = shop_without_20\<lparr>arrival := (\<lambda>k. if k = 2 then 5 else k)\<rparr>"


section \<open>Properties of the credential table\<close>

lemma js_split_nonempty: "js_split c s \<noteq> []"
  by (induction s) (auto split: list.splits)

lemma hd_js_split: "hd (js_split c s) = takeWhile (\<lambda>x. x \<noteq> c) s"
  by (induction s) (auto split: list.splits simp: js_split_nonempty)

lemma tl_js_split:
  "tl (js_split c s) = (if c \<in> set s then js_split c (tl (dropWhile (\<lambda>x. x \<noteq> c) s)) else [])"
  by (induction s) (auto split: list.splits simp: js_split_nonempty)

lemma nth_piece_0: "nth_piece (js_split c s) 0 = takeWhile (\<lambda>x. x \<noteq> c) s"
  using js_split_nonempty[of c s] hd_js_split[of c s]
  by (cases "js_split c s") (auto simp: nth_piece_def)

lemma nth_piece_1:
  "nth_piece (js_split c s) (Suc 0) = takeWhile (\<lambda>x. x \<noteq> c) (tl (dropWhile (\<lambda>x. x \<noteq> c) s))"
proof (cases "c \<in> set s")
  case True
  let ?r = "tl (dropWhile (\<lambda>x. x \<noteq> c) s)"
  from True have t: "tl (js_split c s) = js_split c ?r" by (simp add: tl_js_split)
  obtain p ps where ps: "js_split c s = p # ps"
    using js_split_nonempty[of c s] by (cases "js_split c s") auto
  with t have "ps = js_split c ?r" by simp
  then have "ps \<noteq> []" "hd ps = takeWhile (\<lambda>x. x \<noteq> c) ?r"
    using js_split_nonempty[of c ?r] hd_js_split[of c ?r] by auto
  then show ?thesis using ps by (cases ps) (auto simp: nth_piece_def)
next
  case False
  then have "tl (js_split c s) = []" by (simp add: tl_js_split)
  then have "nth_piece (js_split c s) (Suc 0) = []"
    using js_split_nonempty[of c s] by (cases "js_split c s") (auto simp: nth_piece_def)
  moreover from False have "dropWhile (\<lambda>x. x \<noteq> c) s = []" by auto
  then have "takeWhile (\<lambda>x. x \<noteq> c) (tl (dropWhile (\<lambda>x. x \<noteq> c) s)) = []"
    by (simp only: list.sel takeWhile.simps)
  ultimately show ?thesis by simp
qed

lemma add_pair_cases:
  "add_pair pair s =
     (if is_pair (js_trim pair)
      then s\<lparr>tokenMap := AList.update (entry_projectId (js_trim pair)) (entry_token (js_trim pair)) (tokenMap s)\<rparr>
      else s\<lparr>defaultToken := js_trim pair\<rparr>)"
proof -
  have "CHR '':'' \<notin> set (takeWhile (\<lambda>x. x \<noteq> CHR '':'') (js_trim pair))"
    by (auto dest: set_takeWhileD)
  then show ?thesis
    by (simp add: add_pair_def Let_def nth_piece_0 nth_piece_1 is_pair_def entry_projectId_def entry_token_def)
qed

lemma tokenMap_fold:
  "map_of (tokenMap (fold add_pair es s)) pid =
     (case filter (\<lambda>e. is_pair e \<and> entry_projectId e = pid) (map js_trim es) of
        [] \<Rightarrow> map_of (tokenMap s) pid
      | t # ts \<Rightarrow> Some (entry_token (last (t # ts))))"
proof (induction es rule: rev_induct)
  case Nil
  then show ?case by simp
next
  case (snoc x xs)
  show ?case
    using snoc.IH
    by (auto simp: add_pair_cases update_conv' split: list.splits)
qed

lemma defaultToken_fold:
  "defaultToken (fold add_pair es s) =
     (case filter (\<lambda>e. \<not> is_pair e) (map js_trim es) of
        [] \<Rightarrow> defaultToken s
      | b # bs \<Rightarrow> last (b # bs))"
proof (induction es rule: rev_induct)
  case Nil
  then show ?case by simp
next
  case (snoc x xs)
  show ?case
    using snoc.IH
    by (auto simp: add_pair_cases split: list.splits)
qed

lemma getToken_new_YApiService:
  "getToken (new_YApiService raw) pid =
     (case filter (\<lambda>e. is_pair e \<and> entry_projectId e = pid) (entries raw) of
        [] \<Rightarrow> (case filter (\<lambda>e. \<not> is_pair e) (entries raw) of
                 [] \<Rightarrow> []
               | b # bs \<Rightarrow> last (b # bs))
      | t # ts \<Rightarrow> entry_token (last (t # ts)))"
proof (cases "raw = []")
  case True
  then show ?thesis
    by (simp add: getToken_def new_YApiService_def entries_def js_trim_def is_pair_def entry_projectId_def)
next
  case False
  let ?s0 = "\<lparr>tokenMap = [], defaultToken = [], projectInfoCache = [],
                categoryListCache = [], sent = [], inflight = []\<rparr>"
  let ?ps = "filter (\<lambda>e. is_pair e \<and> entry_projectId e = pid) (entries raw)"
  have n: "new_YApiService raw = fold add_pair (js_split CHR '','' raw) ?s0"
    using False by (simp add: new_YApiService_def)
  show ?thesis
  proof (cases ?ps)
    case Nil
    then show ?thesis
      using tokenMap_fold[of "js_split CHR '','' raw" ?s0 pid]
            defaultToken_fold[of "js_split CHR '','' raw" ?s0]
      by (simp add: n getToken_def entries_def split: list.splits)
  next
    case (Cons t ts)
    have "last (t # ts) \<in> set ?ps" unfolding Cons[symmetric] using Cons by (metis last_in_set list.distinct(1))
    then have "entry_token (last (t # ts)) \<noteq> []" by (auto simp: is_pair_def)
    then show ?thesis
      using Cons tokenMap_fold[of "js_split CHR '','' raw" ?s0 pid]
      by (simp add: n getToken_def entries_def)
  qed
qed

text \<open>
  Claim C2, as the code has it. The token string is cut at its commas and every entry is
  trimmed. An entry is cut at every colon and its first two pieces are the project id and
  the token, so that the token ends at a second colon, if there is one. Take a token
  string in which every entry either has no colon or has both pieces non-empty. Then
  \<open>getToken\<close> returns the token of the last pair given for the project id; when there is
  none, the last entry without a colon (the default token); when there is none either, the
  empty string.
\<close>

theorem getToken_resolves:
  assumes "\<forall>e \<in> set (entries raw). CHR '':'' \<notin> set e \<or> is_pair e"
  shows "getToken (new_YApiService raw) pid =
     (case filter (\<lambda>e. is_pair e \<and> entry_projectId e = pid) (entries raw) of
        [] \<Rightarrow> (case filter (\<lambda>e. CHR '':'' \<notin> set e) (entries raw) of
                 [] \<Rightarrow> []
               | b # bs \<Rightarrow> last (b # bs))
      | t # ts \<Rightarrow> entry_token (last (t # ts)))"
proof -
  have "\<not> is_pair e \<longleftrightarrow> CHR '':'' \<notin> set e" if "e \<in> set (entries raw)" for e
  proof
    assume "\<not> is_pair e"
    with assms that show "CHR '':'' \<notin> set e" by blast
  next
    assume "CHR '':'' \<notin> set e"
    then have "dropWhile (\<lambda>x. x \<noteq> CHR '':'') e = []" by auto
    then have "entry_token e = []" by (simp only: entry_token_def list.sel takeWhile.simps)
    then show "\<not> is_pair e" by (simp add: is_pair_def)
  qed
  then have eq: "filter (\<lambda>e. \<not> is_pair e) (entries raw) =
      filter (\<lambda>e. CHR '':'' \<notin> set e) (entries raw)"
    by (intro filter_cong) auto
  show ?thesis
    unfolding getToken_new_YApiService eq by (rule refl)
qed

theorem getToken_resolves_witness:
  "getToken (new_YApiService ''10:abc, 20:def,xyz'') ''99'' = ''xyz''
   \<and> getToken (new_YApiService ''10:abc, 20:def,xyz'') ''20'' = ''def''"
  using getToken_resolves [of "''10:abc, 20:def,xyz''" "''99''"]
        getToken_resolves [of "''10:abc, 20:def,xyz''" "''20''"]
  by (simp add: entries_def js_trim_def isWhiteSpace_def is_pair_def entry_projectId_def
        entry_token_def)

theorem first_colon_counterexample:
  "snd (spec_split_first_colon ''10:ab:cd'') = ''ab:cd''
   \<and> getToken (new_YApiService ''10:ab:cd'') ''10'' = ''ab''"
  by (simp add: spec_split_first_colon_def new_YApiService_def add_pair_def getToken_def
        js_trim_def isWhiteSpace_def nth_piece_def)

section \<open>Properties of waiting for answers\<close>

lemma finish_fields [simp]:
  "sent (snd (getProjectInfo_finish env p k s)) = sent s"
  "tokenMap (snd (getProjectInfo_finish env p k s)) = tokenMap s"
  "defaultToken (snd (getProjectInfo_finish env p k s)) = defaultToken s"
  "sent (snd (getCategoryList_finish env p k s)) = sent s"
  "tokenMap (snd (getCategoryList_finish env p k s)) = tokenMap s"
  "defaultToken (snd (getCategoryList_finish env p k s)) = defaultToken s"
  by (simp_all add: getProjectInfo_finish_def getCategoryList_finish_def split: sum.splits)

lemma deliver_fields [simp]:
  "sent (deliver env w s) = sent s"
  "tokenMap (deliver env w s) = tokenMap s"
  "defaultToken (deliver env w s) = defaultToken s"
proof -
  obtain ep p k where w: "w = (ep, p, k)" by (cases w)
  show "sent (deliver env w s) = sent s" "tokenMap (deliver env w s) = tokenMap s"
    "defaultToken (deliver env w s) = defaultToken s"
    unfolding w deliver_def by (cases ep; simp)+
qed

lemma await_all_invariant:
  assumes "\<And>w s. P s \<Longrightarrow> P (older w s)"
    and "\<And>p k s. P s \<Longrightarrow> P (snd (fin p k s))"
    and "P st"
  shows "P (fst (await_all older fin first n ws st))"
  using assms(3)
proof (induction ws arbitrary: st n)
  case Nil
  then show ?case by simp
next
  case (Cons w ws)
  obtain ep p k where w: "w = (ep, p, k)" by (cases w)
  obtain r s1 where f: "fin p k st = (r, s1)" by (cases "fin p k st")
  have 1: "P s1" using assms(2) [OF Cons.prems, of p k] f by simp
  have 2: "P (older (ep, p, k) st)" by (rule assms(1) [OF Cons.prems])
  consider (settled) "n = 0" | (old) "n \<noteq> 0" "k < first" | (own) "n \<noteq> 0" "\<not> k < first"
    by blast
  then show ?case
  proof cases
    case settled
    then show ?thesis using w Cons.prems by simp
  next
    case old
    then show ?thesis using w Cons.IH [OF 2, of n] by simp
  next
    case own
    show ?thesis
    proof (cases r)
      case (Inl e)
      then show ?thesis using own 1 f w by simp
    next
      case (Inr v)
      then show ?thesis using own f w Cons.IH [OF 1, of "n - 1"] by simp
    qed
  qed
qed

lemma await_answer_fields [simp]:
  "sent (await_answer env w s) = sent s"
  "tokenMap (await_answer env w s) = tokenMap s"
  "defaultToken (await_answer env w s) = defaultToken s"
proof -
  let ?a = "await_all (deliver env) (\<lambda>p k s. (Inr (), s)) (snd (snd w)) 1
              (in_order_of_arrival env (inflight s @ [w])) s"
  obtain st2 rest where a: "?a = (st2, rest)" by (cases ?a)
  have "sent (fst ?a) = sent s \<and> tokenMap (fst ?a) = tokenMap s
      \<and> defaultToken (fst ?a) = defaultToken s"
    by (rule await_all_invariant) simp_all
  then have inv: "sent st2 = sent s" "tokenMap st2 = tokenMap s" "defaultToken st2 = defaultToken s"
    unfolding a by simp_all
  have *: "await_answer env w s = st2\<lparr>inflight := rest\<rparr>"
    unfolding await_answer_def a by simp
  show "sent (await_answer env w s) = sent s" "tokenMap (await_answer env w s) = tokenMap s"
    "defaultToken (await_answer env w s) = defaultToken s"
    unfolding * using inv by simp_all
qed

lemma token_for_fields:
  "tokenMap a = tokenMap b \<Longrightarrow> defaultToken a = defaultToken b \<Longrightarrow> token_for a = token_for b"
  by (auto simp: fun_eq_iff token_for_def getToken_def split: option.splits)

lemma token_for_await_answer [simp]: "token_for (await_answer env w s) = token_for s"
  by (rule token_for_fields) simp_all

lemma request_fst:
  "fst (request env st ep projectId answer) =
     (if token_for st projectId = [] then Inl CommError
      else received (answer (length (sent st))))"
  by (simp add: request_def send_def)

lemma request_sent:
  "sent (snd (request env st ep projectId answer)) =
     (if token_for st projectId = [] then sent st else sent st @ [(ep, projectId)])"
  by (simp add: request_def send_def)

text \<open>
  A search that starts with three projects configured, the second of which cannot be
  loaded: the answer for project 30 is in flight when \<open>loadAllProjectInfo\<close> returns,
  so project 10 is the only candidate; the answer arrives while the menu of project 10 is
  awaited (or, when it is late, while the category lists are awaited), and project 30 is
  in the project map when the search ends.
\<close>

lemma search_with_answer_in_flight:
  "inflight (loadAllProjectInfo shop_without_20 (yapiService server_three))
     = [(Project_get, ''30'', 2)]
   \<and> map a_id (res_list (fst (searchApis shop_without_20 (yapiService server_three) no_options)))
     = [9, 7, 5]
   \<and> sent (snd (searchApis shop_without_20 (yapiService server_three) no_options))
     = [(Project_get, ''10''), (Project_get, ''20''), (Project_get, ''30''),
        (List_menu, ''10''), (GetCatMenu, ''10''), (GetCatMenu, ''10''), (GetCatMenu, ''10'')]
   \<and> map fst (projectInfoCache
         (snd (searchApis shop_without_20 (yapiService server_three) no_options)))
     = [''10'', ''30'']
   \<and> inflight (snd (searchApis shop_without_20 (yapiService server_three) no_options)) = []
   \<and> inflight (snd (searchWithSingleKeyword shop_30_late
         (loadAllProjectInfo shop_30_late (yapiService server_three)) ''10''
         \<lparr>q_keyword = None, q_path = None, q_tag = None\<rparr> 1 20))
     = [(Project_get, ''30'', 2)]
   \<and> map fst (projectInfoCache (snd (searchApis shop_30_late (yapiService server_three) no_options)))
     = [''10'', ''30'']
   \<and> inflight (snd (searchApis shop_30_late (yapiService server_three) no_options)) = []"
  by code_simp

section \<open>Properties of saving an interface\<close>

lemma parse_tag_None: "parse_tag JSON_parse x = None \<longleftrightarrow> parse_fails JSON_parse x"
  by (auto simp: parse_tag_def parse_fails_def split: option.splits)

lemma parse_given_None: "parse_given JSON_parse x = None \<longleftrightarrow> parse_fails JSON_parse x"
  by (auto simp: parse_given_def parse_fails_def split: option.splits)

lemma save_params_tag_fails:
  "parse_fails JSON_parse (arg_tag a) \<Longrightarrow> save_params JSON_parse a = Inl (SaveError SyntaxError)"
  by (simp add: save_params_def parse_tag_None [symmetric])

lemma save_params_first_failure:
  assumes "find (\<lambda>f. parse_fails JSON_parse (field_arg a f))
             [Req_params, Req_query, Req_headers, Req_body_form] = Some f"
    and "\<not> parse_fails JSON_parse (arg_tag a)"
  shows "save_params JSON_parse a = Inl (JsonParseError f)"
proof -
  let ?P = "parse_fails JSON_parse"
  obtain t where t: "parse_tag JSON_parse (arg_tag a) = Some t"
    using assms(2) by (cases "parse_tag JSON_parse (arg_tag a)") (auto simp: parse_tag_None)
  have some: "\<exists>v. parse_given JSON_parse x = Some v" if "\<not> ?P x" for x
    using that by (cases "parse_given JSON_parse x") (auto simp: parse_given_None)
  have none: "parse_given JSON_parse x = None" if "?P x" for x
    using that by (simp add: parse_given_None)
  consider
      (a) "?P (arg_req_params a)" "f = Req_params"
    | (b) "\<not> ?P (arg_req_params a)" "?P (arg_req_query a)" "f = Req_query"
    | (c) "\<not> ?P (arg_req_params a)" "\<not> ?P (arg_req_query a)" "?P (arg_req_headers a)"
          "f = Req_headers"
    | (d) "\<not> ?P (arg_req_params a)" "\<not> ?P (arg_req_query a)" "\<not> ?P (arg_req_headers a)"
          "?P (arg_req_body_form a)" "f = Req_body_form"
    using assms(1) by (auto simp: field_arg_def split: if_splits)
  then show ?thesis
  proof cases
    case a
    then show ?thesis by (simp add: save_params_def t none)
  next
    case b
    from some [OF b(1)] obtain v1 where "parse_given JSON_parse (arg_req_params a) = Some v1" ..
    then show ?thesis using b by (simp add: save_params_def t none)
  next
    case c
    from some [OF c(1)] obtain v1 where "parse_given JSON_parse (arg_req_params a) = Some v1" ..
    moreover from some [OF c(2)] obtain v2 where "parse_given JSON_parse (arg_req_query a) = Some v2" ..
    ultimately show ?thesis using c by (simp add: save_params_def t none)
  next
    case d
    from some [OF d(1)] obtain v1 where "parse_given JSON_parse (arg_req_params a) = Some v1" ..
    moreover from some [OF d(2)] obtain v2 where "parse_given JSON_parse (arg_req_query a) = Some v2" ..
    moreover from some [OF d(3)] obtain v3 where "parse_given JSON_parse (arg_req_headers a) = Some v3" ..
    ultimately show ?thesis using d by (simp add: save_params_def t none)
  qed
qed


text \<open>
  Claim C3, as the code has it. The tag list is decoded inside the outer \<open>try\<close> of the
  handler, before anything else. When \<open>JSON.parse\<close> throws on it, the handler returns
  the text of the outer catch block and the service is left as it was: the call is
  rejected and no request is sent.
\<close>

theorem tag_decode_failure_rejects:
  assumes "parse_fails JSON_parse (arg_tag a)"
  shows "yapi_save_api JSON_parse env st a = (SaveError SyntaxError, st)"
  using assms by (simp add: yapi_save_api_def save_params_tag_fails)

lemma parse_fails_oops: "parse_fails JSON_parse_literals (Some ''oops'')"
  by (simp add: parse_fails_def JSON_parse_literals_def js_trim_def isWhiteSpace_def)

theorem tag_decode_failure_rejects_witness:
  "yapi_save_api JSON_parse_literals accepting (new_YApiService ''10:abc'')
     (login_args\<lparr>arg_tag := Some ''oops''\<rparr>)
   = (SaveError SyntaxError, new_YApiService ''10:abc'')"
  using tag_decode_failure_rejects [of JSON_parse_literals "login_args\<lparr>arg_tag := Some ''oops''\<rparr>"
      accepting "new_YApiService ''10:abc''"]
  by (simp add: parse_fails_oops)

theorem tag_decode_counterexample:
  "fst (yapi_save_api JSON_parse_literals accepting (new_YApiService ''10:abc'')
          (login_args\<lparr>arg_tag := None\<rparr>))
     = SaveSuccess False (Some 66) ''Login'' ''POST'' ''/login''
   \<and> fst (yapi_save_api JSON_parse_literals accepting (new_YApiService ''10:abc'')
          (login_args\<lparr>arg_tag := Some ''oops''\<rparr>))
     = SaveError SyntaxError
   \<and> sent (snd (yapi_save_api JSON_parse_literals accepting (new_YApiService ''10:abc'')
          (login_args\<lparr>arg_tag := Some ''oops''\<rparr>))) = []"
  by code_simp

text \<open>
  Claim C6, as the code has it, for the handler of the tool \<open>yapi_save_api\<close>. Let \<open>f\<close>
  be the first of the four JSON-encoded fields, in the order in which the handler reads
  them, on which \<open>JSON.parse\<close> throws. Then the handler leaves the service as it was,
  so no request is sent. When the tag list is absent, empty or decodes, the handler
  returns the parse error text of field \<open>f\<close>. When the tag list, which is decoded before
  the four fields, fails to decode, the handler returns the text of the outer catch
  block, which names no field.
\<close>

theorem json_field_failure_rejects:
  assumes "find (\<lambda>f. parse_fails JSON_parse (field_arg a f))
             [Req_params, Req_query, Req_headers, Req_body_form] = Some f"
  shows "snd (yapi_save_api JSON_parse env st a) = st
       \<and> (\<not> parse_fails JSON_parse (arg_tag a) \<longrightarrow>
            fst (yapi_save_api JSON_parse env st a) = JsonParseError f)
       \<and> (parse_fails JSON_parse (arg_tag a) \<longrightarrow>
            fst (yapi_save_api JSON_parse env st a) = SaveError SyntaxError)"
proof (cases "parse_fails JSON_parse (arg_tag a)")
  case True
  then show ?thesis by (simp add: yapi_save_api_def save_params_tag_fails)
next
  case False
  then show ?thesis by (simp add: yapi_save_api_def save_params_first_failure [OF assms])
qed

lemma headers_fail:
  "find (\<lambda>f. parse_fails JSON_parse_literals (field_arg (login_args\<lparr>arg_req_headers := Some ''{''\<rparr>) f))
     [Req_params, Req_query, Req_headers, Req_body_form] = Some Req_headers"
  "\<not> parse_fails JSON_parse_literals (arg_tag (login_args\<lparr>arg_req_headers := Some ''{''\<rparr>))"
  by (simp_all add: parse_fails_def field_arg_def JSON_parse_literals_def js_trim_def
        isWhiteSpace_def login_args_def)

lemma query_and_tag_fail:
  "find (\<lambda>f. parse_fails JSON_parse_literals
             (field_arg (login_args\<lparr>arg_tag := Some ''oops'', arg_req_query := Some ''[1,''\<rparr>) f))
     [Req_params, Req_query, Req_headers, Req_body_form] = Some Req_query"
  "parse_fails JSON_parse_literals
     (arg_tag (login_args\<lparr>arg_tag := Some ''oops'', arg_req_query := Some ''[1,''\<rparr>))"
  by (simp_all add: parse_fails_def field_arg_def JSON_parse_literals_def js_trim_def
        isWhiteSpace_def login_args_def)

theorem json_field_failure_rejects_witness:
  "snd (yapi_save_api JSON_parse_literals accepting (new_YApiService ''10:abc'')
          (login_args\<lparr>arg_req_headers := Some ''{''\<rparr>)) = new_YApiService ''10:abc''
   \<and> fst (yapi_save_api JSON_parse_literals accepting (new_YApiService ''10:abc'')
          (login_args\<lparr>arg_req_headers := Some ''{''\<rparr>)) = JsonParseError Req_headers
   \<and> snd (yapi_save_api JSON_parse_literals accepting (new_YApiService ''10:abc'')
          (login_args\<lparr>arg_tag := Some ''oops'', arg_req_query := Some ''[1,''\<rparr>))
       = new_YApiService ''10:abc''
   \<and> fst (yapi_save_api JSON_parse_literals accepting (new_YApiService ''10:abc'')
          (login_args\<lparr>arg_tag := Some ''oops'', arg_req_query := Some ''[1,''\<rparr>))
       = SaveError SyntaxError"
  using json_field_failure_rejects [OF headers_fail(1), of accepting "new_YApiService ''10:abc''"]
    json_field_failure_rejects [OF query_and_tag_fail(1), of accepting "new_YApiService ''10:abc''"]
    headers_fail(2) query_and_tag_fail(2)
  by simp

theorem field_not_named_counterexample:
  "parse_fails JSON_parse_literals
     (arg_req_query (login_args\<lparr>arg_tag := Some ''oops'', arg_req_query := Some ''[1,''\<rparr>))
   \<and> fst (yapi_save_api JSON_parse_literals accepting (new_YApiService ''10:abc'')
          (login_args\<lparr>arg_tag := Some ''oops'', arg_req_query := Some ''[1,''\<rparr>))
       = SaveError SyntaxError
   \<and> fst (yapi_save_api JSON_parse_literals accepting (new_YApiService ''10:abc'')
          (login_args\<lparr>arg_tag := Some ''oops'', arg_req_query := Some ''[1,''\<rparr>))
       \<noteq> JsonParseError Req_query"
  by code_simp

lemma save_params_Inr:
  assumes "save_params JSON_parse a = Inr p"
  shows "sp_project_id p = arg_projectId a" and "sp_id p = if_given (arg_id a)"
  using assms by (auto simp: save_params_def split: option.splits if_splits)

lemma saveInterface_sent:
  assumes "token_for st (sp_project_id q) \<noteq> []"
  shows "sent (snd (saveInterface env st q)) =
           sent st @ [(if truthy (sp_id q) then Interface_up else Interface_add, sp_project_id q)]"
  using assms
  by (auto simp: saveInterface_def request_def send_def Let_def split: sum.splits prod.splits)

lemma saveInterface_ok:
  assumes "token_for st (sp_project_id q) \<noteq> []"
    and "interface_save env (length (sent st))
           (if truthy (sp_id q) then Interface_up else Interface_add) q = Response r"
    and "errcode r = 0"
  shows "fst (saveInterface env st q) = Inr r"
  using assms
  by (auto simp: saveInterface_def request_def send_def received_def Let_def)

text \<open>
  Claim C7, as the code has it. When a token resolves for the project, \<open>saveInterface\<close>
  sends exactly one request: to the update endpoint when \<open>params.id\<close> is a string that
  is not empty, to the create endpoint when it is absent or the empty string. When the
  remote service answers it with \<open>errcode\<close> 0, \<open>saveInterface\<close> returns that answer.
  The tool handler puts \<open>id\<close> into the parameters only when it is not empty, and, for
  every call whose parameters these are, it submits that one request; on an answer with
  \<open>errcode\<close> 0 it returns the success text with the \<open>_id\<close> of the answer's \<open>data\<close>, or the
  text of its catch block when the answer has no \<open>data\<close>.
\<close>

theorem save_creates_or_updates:
  assumes "token_for st (sp_project_id q) \<noteq> []"
  shows "sent (snd (saveInterface env st q)) =
           sent st @ [(if truthy (sp_id q) then Interface_up else Interface_add, sp_project_id q)]
       \<and> (\<forall>r. interface_save env (length (sent st))
                 (if truthy (sp_id q) then Interface_up else Interface_add) q = Response r
              \<and> errcode r = 0 \<longrightarrow>
              fst (saveInterface env st q) = Inr r)
       \<and> (\<forall>JSON_parse a. save_params JSON_parse a = Inr q \<longrightarrow>
            sp_id q = if_given (arg_id a)
            \<and> sent (snd (yapi_save_api JSON_parse env st a)) =
                sent st @ [(if truthy (arg_id a) then Interface_up else Interface_add,
                            arg_projectId a)]
            \<and> (\<forall>r. interface_save env (length (sent st))
                      (if truthy (arg_id a) then Interface_up else Interface_add) q = Response r
                   \<and> errcode r = 0 \<longrightarrow>
                   fst (yapi_save_api JSON_parse env st a) =
                     (case data r of
                        None \<Rightarrow> SaveError TypeError
                      | Some d \<Rightarrow>
                          SaveSuccess (truthy (arg_id a)) (sd_id d) (arg_title a) (arg_method a)
                            (arg_path a))))"
proof (intro conjI allI impI)
  show "sent (snd (saveInterface env st q)) =
           sent st @ [(if truthy (sp_id q) then Interface_up else Interface_add, sp_project_id q)]"
    by (rule saveInterface_sent [OF assms])
next
  fix r
  assume "interface_save env (length (sent st))
                 (if truthy (sp_id q) then Interface_up else Interface_add) q = Response r
              \<and> errcode r = 0"
  then show "fst (saveInterface env st q) = Inr r"
    using saveInterface_ok [OF assms] by blast
next
  fix JSON_parse a
  assume p: "save_params JSON_parse a = Inr q"
  show "sp_id q = if_given (arg_id a)" by (rule save_params_Inr(2) [OF p])
  then have t: "truthy (sp_id q) = truthy (arg_id a)"
    by (simp add: if_given_def truthy_def)
  have y: "snd (yapi_save_api JSON_parse env st a) = snd (saveInterface env st q)"
    using p by (auto simp: yapi_save_api_def split: prod.splits sum.splits option.splits)
  show "sent (snd (yapi_save_api JSON_parse env st a)) =
      sent st @ [(if truthy (arg_id a) then Interface_up else Interface_add, arg_projectId a)]"
    unfolding y using saveInterface_sent [OF assms, of env] t save_params_Inr(1) [OF p] by simp
  fix r
  assume "interface_save env (length (sent st))
                      (if truthy (arg_id a) then Interface_up else Interface_add) q = Response r
                   \<and> errcode r = 0"
  then have "fst (saveInterface env st q) = Inr r"
    using saveInterface_ok [OF assms, of env r] t by simp
  then show "fst (yapi_save_api JSON_parse env st a) =
                     (case data r of
                        None \<Rightarrow> SaveError TypeError
                      | Some d \<Rightarrow>
                          SaveSuccess (truthy (arg_id a)) (sd_id d) (arg_title a) (arg_method a)
                            (arg_path a))"
    using p by (auto simp: yapi_save_api_def split: prod.splits sum.splits option.splits)
qed

theorem save_creates_or_updates_witness:
  "sent (snd (yapi_save_api JSON_parse_literals accepting (new_YApiService ''10:abc'') login_args))
       = [(Interface_add, ''10'')]
   \<and> fst (yapi_save_api JSON_parse_literals accepting (new_YApiService ''10:abc'') login_args)
       = SaveSuccess False (Some 66) ''Login'' ''POST'' ''/login''
   \<and> sent (snd (yapi_save_api JSON_parse_literals accepting (new_YApiService ''10:abc'')
         (login_args\<lparr>arg_id := Some ''42''\<rparr>)))
       = [(Interface_up, ''10'')]
   \<and> fst (yapi_save_api JSON_parse_literals accepting (new_YApiService ''10:abc'')
         (login_args\<lparr>arg_id := Some ''42''\<rparr>))
       = SaveSuccess True (Some 66) ''Login'' ''POST'' ''/login''
   \<and> fst (yapi_save_api JSON_parse_literals without_data (new_YApiService ''10:abc'')
         (login_args\<lparr>arg_id := Some ''42''\<rparr>))
       = SaveError TypeError"
proof -
  let ?s = "new_YApiService ''10:abc''"
  have sent0: "sent ?s = []" by code_simp
  have answer: "interface_save accepting k ep q =
      Response \<lparr>errcode = 0, errmsg = [], data = Some \<lparr>sd_id = Some 66\<rparr>\<rparr>" for k ep q
    by (simp add: accepting_def)
  have no_data: "interface_save without_data k ep q =
      Response \<lparr>errcode = 0, errmsg = [], data = None\<rparr>" for k ep q
    by (simp add: without_data_def)
  {
    fix a :: SaveArgs
    let ?q = "projr (save_params JSON_parse_literals a)"
    assume p: "save_params JSON_parse_literals a = Inr ?q"
      and pid: "arg_projectId a = ''10''"
    have tok: "token_for ?s (sp_project_id ?q) \<noteq> []"
      unfolding save_params_Inr(1) [OF p] pid by code_simp
    from save_creates_or_updates [OF tok, of accepting] answer p
    have 1: "sent (snd (yapi_save_api JSON_parse_literals accepting ?s a)) =
            [(if truthy (arg_id a) then Interface_up else Interface_add, ''10'')]
        \<and> fst (yapi_save_api JSON_parse_literals accepting ?s a) =
            SaveSuccess (truthy (arg_id a)) (Some 66) (arg_title a) (arg_method a) (arg_path a)"
      by (simp add: sent0 pid)
    from save_creates_or_updates [OF tok, of without_data] no_data p
    have 2: "fst (yapi_save_api JSON_parse_literals without_data ?s a) = SaveError TypeError"
      by simp
    note 1 2
  }
  note * = this
  have p1: "save_params JSON_parse_literals login_args =
      Inr (projr (save_params JSON_parse_literals login_args))"
    by code_simp
  have p2: "save_params JSON_parse_literals (login_args\<lparr>arg_id := Some ''42''\<rparr>) =
      Inr (projr (save_params JSON_parse_literals (login_args\<lparr>arg_id := Some ''42''\<rparr>)))"
    by code_simp
  show ?thesis
    using *(1) [OF p1] *(1) [OF p2] *(2) [OF p2] by (simp add: login_args_def truthy_def)
qed

theorem empty_id_counterexample:
  "sp_id ((projr (save_params JSON_parse_literals login_args))\<lparr>sp_id := Some []\<rparr>) = Some []
   \<and> sent (snd (saveInterface accepting (new_YApiService ''10:abc'')
        ((projr (save_params JSON_parse_literals login_args))\<lparr>sp_id := Some []\<rparr>)))
       = [(Interface_add, ''10'')]
   \<and> fst (yapi_save_api JSON_parse_literals without_data (new_YApiService ''10:abc'')
         (login_args\<lparr>arg_id := Some ''42''\<rparr>))
       = SaveError TypeError"
  by code_simp

section \<open>Properties of searching\<close>

lemma digit_inj: "d < 10 \<Longrightarrow> e < 10 \<Longrightarrow> digit d = digit e \<Longrightarrow> d = e"
proof -
  assume d: "d < 10" and e: "e < 10" and eq: "digit d = digit e"
  have "distinct ''0123456789''" by simp
  moreover have "d < length ''0123456789''" "e < length ''0123456789''" using d e by simp_all
  ultimately show "d = e" using eq unfolding digit_def by (simp only: nth_eq_iff_index_eq)
qed

lemma digit_not_minus: "d < 10 \<Longrightarrow> digit d \<noteq> CHR ''-''"
proof -
  assume "d < 10"
  then have "digit d \<in> set ''0123456789''" unfolding digit_def by (intro nth_mem) simp
  then show ?thesis by auto
qed

lemma digits_nonempty: "digits n \<noteq> []"
  by (subst digits.simps) simp

lemma hd_digits_not_minus: "hd (digits n) \<noteq> CHR ''-''"
proof (induction n rule: digits.induct)
  case (1 n)
  show ?case
  proof (cases "n < 10")
    case True
    then show ?thesis by (subst digits.simps) (simp add: digit_not_minus)
  next
    case False
    then show ?thesis using 1 by (subst digits.simps) (simp add: digits_nonempty)
  qed
qed

lemma digits_inj: "digits n = digits m \<Longrightarrow> n = m"
proof (induction n arbitrary: m rule: digits.induct)
  case (1 n)
  have big: "length (digits k) \<ge> 2" if "\<not> k < 10" for k
  proof -
    have "length (digits (k div 10)) \<ge> 1" using digits_nonempty [of "k div 10"]
      by (cases "digits (k div 10)") auto
    then show ?thesis using that by (subst digits.simps) simp
  qed
  have small: "digits k = [digit k]" if "k < 10" for k
    using that by (subst digits.simps) simp
  have len: "length (digits n) = length (digits m)"
    using "1.prems" by simp
  show ?case
  proof (cases "n < 10")
    case n: True
    show ?thesis
    proof (cases "m < 10")
      case True
      then show ?thesis using n "1.prems" digit_inj by (simp add: small)
    next
      case False
      then show ?thesis using n len big [of m] by (simp add: small)
    qed
  next
    case n: False
    show ?thesis
    proof (cases "m < 10")
      case True
      then show ?thesis using n len big [of n] by (simp add: small)
    next
      case False
      have "digits n = digits (n div 10) @ [digit (n mod 10)]"
        using n by (subst digits.simps) simp
      moreover have "digits m = digits (m div 10) @ [digit (m mod 10)]"
        using False by (subst digits.simps) simp
      ultimately have a: "digits (n div 10) = digits (m div 10)"
        and b: "digit (n mod 10) = digit (m mod 10)"
        using "1.prems" by simp_all
      from "1.IH" [OF n a] have "n div 10 = m div 10" .
      moreover from b have "n mod 10 = m mod 10" by (intro digit_inj) simp_all
      ultimately show ?thesis by (metis div_mult_mod_eq)
    qed
  qed
qed

lemma String_num_inj: "String_num i = String_num j \<Longrightarrow> i = j"
proof -
  assume eq: "String_num i = String_num j"
  have neq: "CHR ''-'' # xs \<noteq> digits n" for xs n
    using hd_digits_not_minus [of n] by (cases "digits n") auto
  show "i = j"
  proof (cases "i < 0")
    case i: True
    show ?thesis
    proof (cases "j < 0")
      case True
      with i eq have "digits (nat (- i)) = digits (nat (- j))" by (simp add: String_num_def)
      then have "nat (- i) = nat (- j)" by (rule digits_inj)
      with i True show ?thesis by simp
    next
      case False
      with i eq neq show ?thesis by (simp add: String_num_def)
    qed
  next
    case i: False
    show ?thesis
    proof (cases "j < 0")
      case True
      with i eq neq [of "digits (nat (- j))" "nat i"] show ?thesis by (simp add: String_num_def)
    next
      case False
      with i eq have "digits (nat i) = digits (nat j)" by (simp add: String_num_def)
      then have "nat i = nat j" by (rule digits_inj)
      with i False show ?thesis by simp
    qed
  qed
qed

lemma String_num_eq_iff [simp]: "String_num i = String_num j \<longleftrightarrow> i = j"
  using String_num_inj by auto

lemma dedup_from_subset: "set (dedup_from seen xs) \<subseteq> set xs"
  by (induction xs arbitrary: seen) (auto simp: Let_def)

lemma dedup_from_unseen: "x \<in> set (dedup_from seen xs) \<Longrightarrow> String_num (a_id x) \<notin> seen"
  by (induction xs arbitrary: seen) (auto simp: Let_def split: if_splits)

lemma dedup_from_distinct: "distinct (map a_id (dedup_from seen xs))"
proof (induction xs arbitrary: seen)
  case Nil
  then show ?case by simp
next
  case (Cons item rest)
  have "a_id item \<noteq> a_id y"
    if "y \<in> set (dedup_from (insert (String_num (a_id item)) seen) rest)" for y
    using dedup_from_unseen [OF that] by auto
  then have "a_id item \<notin> a_id ` set (dedup_from (insert (String_num (a_id item)) seen) rest)"
    by blast
  then show ?case
    using Cons.IH by (simp add: Let_def)
qed

lemma dedup_from_first:
  "x \<in> set (dedup_from seen xs) \<Longrightarrow> find (\<lambda>y. a_id y = a_id x) xs = Some x"
proof (induction xs arbitrary: seen)
  case Nil
  then show ?case by simp
next
  case (Cons item rest)
  show ?case
  proof (cases "String_num (a_id item) \<in> seen")
    case True
    with Cons.prems have x: "x \<in> set (dedup_from seen rest)" by (simp add: Let_def)
    from dedup_from_unseen [OF x] True have "a_id item \<noteq> a_id x" by auto
    with Cons.IH [OF x] show ?thesis by simp
  next
    case False
    with Cons.prems consider "x = item"
      | "x \<in> set (dedup_from (insert (String_num (a_id item)) seen) rest)"
      by (auto simp: Let_def)
    then show ?thesis
    proof cases
      case 1
      then show ?thesis by simp
    next
      case 2
      from dedup_from_unseen [OF 2] have "a_id item \<noteq> a_id x" by auto
      with Cons.IH [OF 2] show ?thesis by simp
    qed
  qed
qed

lemma dedup_from_keeps:
  "y \<in> set xs \<Longrightarrow> String_num (a_id y) \<notin> seen \<Longrightarrow> a_id y \<in> a_id ` set (dedup_from seen xs)"
proof (induction xs arbitrary: seen)
  case Nil
  then show ?case by simp
next
  case (Cons item rest)
  show ?case
  proof (cases "a_id y = a_id item")
    case True
    with Cons.prems show ?thesis by (auto simp: Let_def)
  next
    case False
    with Cons.prems have y: "y \<in> set rest" by auto
    from False Cons.prems have "String_num (a_id y) \<notin> insert (String_num (a_id item)) seen"
      by simp
    from Cons.IH [OF y this] Cons.IH [OF y Cons.prems(2)] show ?thesis
      by (auto simp: Let_def)
  qed
qed

lemma dedup_from_subseq: "subseq (dedup_from seen xs) xs"
  by (induction xs arbitrary: seen) (auto simp: Let_def)

lemma deduplicateResults_ids: "a_id ` set (deduplicateResults xs) = a_id ` set xs"
  using dedup_from_subset [of "{}" xs] dedup_from_keeps [of _ xs "{}"]
  by (auto simp: deduplicateResults_def)

lemma searchApis_result:
  "fst (searchApis env st options) =
     \<lparr>res_total = length (deduplicateResults (all_results env st options)),
      res_list = slice0 (deduplicateResults (all_results env st options)) (limit_of options)\<rparr>"
  by (auto simp: searchApis_def all_results_def Let_def search_projects_def
        deduplicateResults_def slice0_def split: prod.splits)

lemma search_combination_page:
  "search_combination env pg lim = search_combination env pg' lim'"
  by (simp add: fun_eq_iff search_combination_def searchWithSingleKeyword_def)

lemma search_projects_page:
  "search_projects env pg lim = search_projects env pg' lim'"
  unfolding search_projects_def search_combination_page [of env pg lim pg' lim'] ..

lemma of_page [simp]:
  "limit_of (options\<lparr>page := p\<rparr>) = limit_of options"
  "maxProjects_of (options\<lparr>page := p\<rparr>) = maxProjects_of options"
  by (simp_all add: limit_of_def maxProjects_of_def)

lemma candidate_projects_page:
  "candidate_projects st (options\<lparr>page := p\<rparr>) = candidate_projects st options"
  unfolding candidate_projects_def of_page by simp

lemma searchApis_page:
  "searchApis env st (options\<lparr>page := p\<rparr>) = searchApis env st (options\<lparr>page := p'\<rparr>)"
  unfolding searchApis_def candidate_projects_page of_page
    search_projects_page [of env "page_of (options\<lparr>page := p\<rparr>)" "limit_of options"
      "page_of (options\<lparr>page := p'\<rparr>)" "limit_of options"]
  by (simp cong: if_cong)

lemma sorted_desc_sort_key:
  "sorted_wrt (\<lambda>x y. y \<le> x) (map a_id (sort_key (\<lambda>a. - a_id a) xs))"
proof -
  have "sorted (map (\<lambda>a. - a_id a) (sort_key (\<lambda>a. - a_id a) xs))"
    by (rule sorted_sort_key)
  then show ?thesis
    by (simp add: sorted_wrt_map sorted_map)
qed

lemma searchWithSingleKeyword_sorted:
  "sorted_wrt (\<lambda>x y. y \<le> x)
     (map a_id (res_list (fst (searchWithSingleKeyword env st projectId q pg lim))))"
  by (auto simp: searchWithSingleKeyword_def Let_def sorted_desc_sort_key
           split: prod.splits sum.splits)

lemma start_all_length: "start_all f ks s = (xs, s') \<Longrightarrow> length xs = length ks"
  by (induction ks arbitrary: s xs s') (auto split: prod.splits)

lemma a_id_with_project_info [simp]: "a_id (with_project_info project outcome item) = a_id item"
  by (auto simp: with_project_info_def Let_def split: sum.splits option.splits)

lemma map2_ids:
  "length os = length items \<Longrightarrow>
   map a_id (map2 (with_project_info project) os items) = map a_id items"
  by (induction os items rule: list_induct2) auto

lemma add_project_info_ids:
  "map a_id (fst (add_project_info env st project projectId items)) = map a_id items"
proof -
  obtain started st1 where s: "start_all getCategoryList_start (map (\<lambda>item. projectId) items) st = (started, st1)"
    by (cases "start_all getCategoryList_start (map (\<lambda>item. projectId) items) st")
  have "length (map (outcome_of env) started) = length items"
    using start_all_length [OF s] by simp
  from map2_ids [OF this]
  have "map a_id (map2 (with_project_info project) (map (outcome_of env) started) items)
      = map a_id items" .
  moreover have "fst (add_project_info env st project projectId items)
      = map2 (with_project_info project) (map (outcome_of env) started) items"
    by (simp add: add_project_info_def s Let_def split: prod.splits)
  ultimately show ?thesis by (simp only:)
qed

lemma search_combination_appends:
  "\<exists>block. fst (search_combination env pg lim project n pk t (acc, st)) = acc @ block
     \<and> sorted_wrt (\<lambda>x y. y \<le> x) (map a_id block)"
proof -
  let ?q = "\<lparr>q_keyword = (if n \<noteq> [] then Some n else None),
             q_path = (if pk \<noteq> [] then Some pk else None),
             q_tag = (if t \<noteq> [] then Some [t] else None)\<rparr>"
  let ?pid = "String_num (pi_id project)"
  obtain r st1 where r: "searchWithSingleKeyword env st ?pid ?q pg lim = (r, st1)"
    by (cases "searchWithSingleKeyword env st ?pid ?q pg lim")
  obtain b st2 where b: "add_project_info env st1 project ?pid (res_list r) = (b, st2)"
    by (cases "add_project_info env st1 project ?pid (res_list r)")
  have "map a_id b = map a_id (res_list r)"
    using add_project_info_ids [of env st1 project ?pid "res_list r"] b by simp
  moreover have "sorted_wrt (\<lambda>x y. y \<le> x) (map a_id (res_list r))"
    using searchWithSingleKeyword_sorted [of env st ?pid ?q pg lim] r by simp
  ultimately have "sorted_wrt (\<lambda>x y. y \<le> x) (map a_id b)" by simp
  moreover have "fst (search_combination env pg lim project n pk t (acc, st)) = acc @ b"
    by (simp add: search_combination_def Let_def r b)
  ultimately show ?thesis by blast
qed

lemma appends_blocks_fold:
  assumes "\<And>x. x \<in> set xs \<Longrightarrow> appends_blocks n (f x)"
  shows "appends_blocks (length xs * n) (fold f xs)"
  using assms
proof (induction xs)
  case Nil
  show ?case by (simp add: appends_blocks_def)
next
  case (Cons x xs)
  have fx: "appends_blocks n (f x)" using Cons.prems by simp
  have rest: "appends_blocks (length xs * n) (fold f xs)" using Cons by simp
  show ?case
    unfolding appends_blocks_def
  proof (intro allI)
    fix acc st
    obtain b1 where b1: "length b1 = n" "fst (f x (acc, st)) = acc @ concat b1"
      "\<forall>b \<in> set b1. sorted_wrt (\<lambda>x y. y \<le> x) (map a_id b)"
      using fx unfolding appends_blocks_def by blast
    obtain acc1 st1 where s1: "f x (acc, st) = (acc1, st1)" by (cases "f x (acc, st)")
    obtain b2 where b2: "length b2 = length xs * n"
      "fst (fold f xs (acc1, st1)) = acc1 @ concat b2"
      "\<forall>b \<in> set b2. sorted_wrt (\<lambda>x y. y \<le> x) (map a_id b)"
      using rest unfolding appends_blocks_def by blast
    have "length (b1 @ b2) = length (x # xs) * n" using b1(1) b2(1) by simp
    moreover have "fst (fold f (x # xs) (acc, st)) = acc @ concat (b1 @ b2)"
      using b1(2) b2(2) s1 by simp
    moreover have "\<forall>b \<in> set (b1 @ b2). sorted_wrt (\<lambda>x y. y \<le> x) (map a_id b)"
      using b1(3) b2(3) by auto
    ultimately show "\<exists>blocks. length blocks = length (x # xs) * n
        \<and> fst (fold f (x # xs) (acc, st)) = acc @ concat blocks
        \<and> (\<forall>b \<in> set blocks. sorted_wrt (\<lambda>x y. y \<le> x) (map a_id b))"
      by blast
  qed
qed

lemma appends_blocks_combination:
  "appends_blocks 1 (search_combination env pg lim project n pk t)"
  unfolding appends_blocks_def
proof (intro allI)
  fix acc st
  obtain block where "fst (search_combination env pg lim project n pk t (acc, st)) = acc @ block"
    "sorted_wrt (\<lambda>x y. y \<le> x) (map a_id block)"
    using search_combination_appends by blast
  then have "length [block] = 1 \<and>
      fst (search_combination env pg lim project n pk t (acc, st)) = acc @ concat [block]
      \<and> (\<forall>b \<in> set [block]. sorted_wrt (\<lambda>x y. y \<le> x) (map a_id b))"
    by simp
  then show "\<exists>blocks. length blocks = 1 \<and>
      fst (search_combination env pg lim project n pk t (acc, st)) = acc @ concat blocks
      \<and> (\<forall>b \<in> set blocks. sorted_wrt (\<lambda>x y. y \<le> x) (map a_id b))"
    by blast
qed

lemma appends_blocks_projects:
  "appends_blocks
     (length projects * (length (or_blank ns) * (length (or_blank ps) * (length (or_blank ts) * 1))))
     (search_projects env pg lim ns ps ts projects)"
proof -
  have "search_projects env pg lim ns ps ts projects =
     fold (\<lambda>project.
       fold (\<lambda>nameKey.
         fold (\<lambda>pathKey.
           fold (\<lambda>tagKey. search_combination env pg lim project nameKey pathKey tagKey)
             (or_blank ts))
           (or_blank ps))
         (or_blank ns))
       projects"
    by (simp add: fun_eq_iff search_projects_def)
  then show ?thesis
    by (simp only:) (intro appends_blocks_fold appends_blocks_combination)
qed

lemma all_results_blocks:
  "\<exists>blocks.
     length blocks =
       length (candidate_projects (loadAllProjectInfo env st) options)
       * (length (or_blank (keywords_of (nameKeyword options)))
       * (length (or_blank (keywords_of (pathKeyword options)))
       * length (or_blank (keywords_of (tagKeyword options)))))
     \<and> all_results env st options = concat blocks
     \<and> (\<forall>b \<in> set blocks. sorted_wrt (\<lambda>x y. y \<le> x) (map a_id b))"
  using appends_blocks_projects [of "candidate_projects (loadAllProjectInfo env st) options"
      "keywords_of (nameKeyword options)" "keywords_of (pathKeyword options)"
      "keywords_of (tagKeyword options)" env "page_of options" "limit_of options"]
  unfolding appends_blocks_def all_results_def
  by (metis append_Nil mult.right_neutral)

lemma without_menu_failures_fields [simp]:
  "project_get (without_menu_failures env) = project_get env"
  "getCatMenu (without_menu_failures env) = getCatMenu env"
  "arrival (without_menu_failures env) = arrival env"
  by (simp_all add: without_menu_failures_def)

lemma list_menu_without_failures:
  "list_menu (without_menu_failures env) k p =
     (case received (list_menu env k p) of
        Inl e \<Rightarrow> Response \<lparr>errcode = 0, errmsg = [], data = []\<rparr>
      | Inr r \<Rightarrow>
          if errcode r \<noteq> 0 then Response \<lparr>errcode = 0, errmsg = [], data = []\<rparr>
          else Response r)"
  by (simp add: without_menu_failures_def)

lemma flatten_menu_Nil [simp]: "flatten_menu [] = []"
  by (simp add: flatten_menu_def)

lemma try_filter_Nil [simp]: "try_filter p [] = []"
  by (simp add: try_filter_def)

lemma filters_Nil [simp]:
  "filter_by_name q [] = []" "filter_by_path q [] = []" "filter_by_tag q [] = []"
  by (simp_all add: filter_by_name_def filter_by_path_def filter_by_tag_def split: option.splits)

lemma filters_no_keyword [simp]:
  "filter_by_name \<lparr>q_keyword = None, q_path = p, q_tag = t\<rparr> xs = xs"
  "filter_by_path \<lparr>q_keyword = k, q_path = None, q_tag = t\<rparr> xs = xs"
  "filter_by_tag \<lparr>q_keyword = k, q_path = p, q_tag = None\<rparr> xs = xs"
  by (simp_all add: filter_by_name_def filter_by_path_def filter_by_tag_def truthy_def)

lemma answers_without_failures:
  "getCategoryList_answer (without_menu_failures env) = getCategoryList_answer env"
  "getProjectInfo_answer (without_menu_failures env) = getProjectInfo_answer env"
  by (simp_all add: fun_eq_iff getCategoryList_answer_def getProjectInfo_answer_def)

lemma parts_without_failures:
  "outcome_of (without_menu_failures env) = outcome_of env"
  "getCategoryList_finish (without_menu_failures env) = getCategoryList_finish env"
  "getProjectInfo_finish (without_menu_failures env) = getProjectInfo_finish env"
  "in_order_of_arrival (without_menu_failures env) = in_order_of_arrival env"
  by (unfold outcome_of_def getCategoryList_finish_def getProjectInfo_finish_def
        in_order_of_arrival_def answers_without_failures without_menu_failures_fields,
      (rule refl)+)

lemma deliver_without_failures:
  "deliver (without_menu_failures env) = deliver env"
  by (intro ext) (unfold deliver_def parts_without_failures, rule refl)

lemma await_answer_without_failures:
  "await_answer (without_menu_failures env) = await_answer env"
  by (intro ext)
    (unfold await_answer_def parts_without_failures deliver_without_failures, rule refl)

lemma getInterfaceMenu_without_failures:
  "getInterfaceMenu (without_menu_failures env) st projectId =
     (case getInterfaceMenu env st projectId of
        (Inl e, st') \<Rightarrow> (if token_for st projectId = [] then Inl e else Inr [], st')
      | (Inr menuData, st') \<Rightarrow> (Inr menuData, st'))"
  by (auto simp: getInterfaceMenu_def request_def send_def received_def
        await_answer_without_failures list_menu_without_failures split: axios_result.splits)

lemma getInterfaceMenu_no_token:
  "token_for st projectId = [] \<Longrightarrow> getInterfaceMenu env st projectId = (Inl CommError, st)"
  by (simp add: getInterfaceMenu_def request_def send_def)

lemma searchWithSingleKeyword_without_failures:
  "searchWithSingleKeyword (without_menu_failures env) st projectId q pg lim =
   searchWithSingleKeyword env st projectId q pg lim"
proof (cases "token_for st projectId = []")
  case True
  then show ?thesis by (simp add: searchWithSingleKeyword_def getInterfaceMenu_no_token)
next
  case False
  then show ?thesis
    by (auto simp: searchWithSingleKeyword_def getInterfaceMenu_without_failures Let_def
          split: prod.splits sum.splits option.splits)
qed

lemma Promise_all_without_failures:
  "Promise_all (without_menu_failures env) = Promise_all env"
  by (intro ext)
    (unfold Promise_all_def parts_without_failures deliver_without_failures, rule refl)

lemma add_project_info_without_failures:
  "add_project_info (without_menu_failures env) = add_project_info env"
  by (intro ext)
    (unfold add_project_info_def parts_without_failures deliver_without_failures, rule refl)

lemma search_combination_without_failures:
  "search_combination (without_menu_failures env) = search_combination env"
  by (intro ext)
    (unfold search_combination_def searchWithSingleKeyword_without_failures
       add_project_info_without_failures, rule refl)

lemma search_projects_without_failures:
  "search_projects (without_menu_failures env) = search_projects env"
  by (intro ext) (unfold search_projects_def search_combination_without_failures, rule refl)

lemma loadAllProjectInfo_without_failures:
  "loadAllProjectInfo (without_menu_failures env) = loadAllProjectInfo env"
  by (intro ext)
    (unfold loadAllProjectInfo_def Promise_all_without_failures parts_without_failures,
     rule refl)

lemma searchApis_without_failures:
  "searchApis (without_menu_failures env) = searchApis env"
  by (intro ext)
    (unfold searchApis_def search_projects_without_failures
       loadAllProjectInfo_without_failures, rule refl)

lemma add_project_info_Nil [simp]: "add_project_info env st project projectId [] = ([], st)"
  by (simp add: add_project_info_def)

lemma searchWithSingleKeyword_failure:
  "fst (getInterfaceMenu env st projectId) = Inl e \<Longrightarrow>
   searchWithSingleKeyword env st projectId q pg lim =
     (\<lparr>res_total = 0, res_list = []\<rparr>, snd (getInterfaceMenu env st projectId))"
  by (auto simp: searchWithSingleKeyword_def split: prod.splits sum.splits)

lemma search_combination_failure:
  "fst (getInterfaceMenu env st (String_num (pi_id project))) = Inl e \<Longrightarrow>
   fst (search_combination env pg lim project n pk t (acc, st)) = acc"
  by (simp add: search_combination_def Let_def searchWithSingleKeyword_failure)

lemma no_menu_request_refl [simp]: "no_menu_request st st"
  by (simp add: no_menu_request_def)

lemma no_menu_request_trans:
  "no_menu_request st st1 \<Longrightarrow> no_menu_request st1 st2 \<Longrightarrow> no_menu_request st st2"
  by (simp add: no_menu_request_def)

lemma token_for_sent [simp]: "token_for (st\<lparr>sent := x\<rparr>) = token_for st"
  by (simp add: fun_eq_iff token_for_def getToken_def split: option.splits)

lemma token_for_caches [simp]:
  "token_for (st\<lparr>categoryListCache := c\<rparr>) = token_for st"
  "token_for (st\<lparr>projectInfoCache := p\<rparr>) = token_for st"
  "token_for (st\<lparr>inflight := i\<rparr>) = token_for st"
  by (simp_all add: fun_eq_iff token_for_def getToken_def split: option.splits)

lemma menu_requests_caches [simp]:
  "menu_requests (st\<lparr>categoryListCache := c\<rparr>) = menu_requests st"
  "menu_requests (st\<lparr>projectInfoCache := p\<rparr>) = menu_requests st"
  "menu_requests (st\<lparr>inflight := i\<rparr>) = menu_requests st"
  by (simp_all add: menu_requests_def)

lemma send_no_menu_request:
  "ep \<noteq> List_menu \<Longrightarrow> no_menu_request st (snd (send st ep projectId))"
  by (simp add: send_def no_menu_request_def menu_requests_def)

lemma getCategoryList_start_no_menu_request:
  "no_menu_request st (snd (getCategoryList_start st projectId))"
  using send_no_menu_request [of GetCatMenu st projectId]
  by (auto simp: getCategoryList_start_def split: option.splits prod.splits)

lemma getProjectInfo_start_no_menu_request:
  "no_menu_request st (snd (getProjectInfo_start st projectId))"
  using send_no_menu_request [of Project_get st projectId]
  by (auto simp: getProjectInfo_start_def split: option.splits prod.splits)

lemma start_all_no_menu_request:
  assumes "\<And>s k. no_menu_request s (snd (f s k))"
  shows "no_menu_request st (snd (start_all f ks st))"
proof (induction ks arbitrary: st)
  case Nil
  show ?case by simp
next
  case (Cons k ks)
  obtain x s1 where f: "f st k = (x, s1)" by (cases "f st k")
  have "no_menu_request st s1" using assms [of st k] f by simp
  moreover have "no_menu_request s1 (snd (start_all f ks s1))" by (rule Cons.IH)
  ultimately show ?case
    using f by (auto simp: split: prod.splits intro: no_menu_request_trans)
qed

lemma getCategoryList_finish_no_menu_request:
  "no_menu_request st (snd (getCategoryList_finish env projectId k st))"
  by (simp add: getCategoryList_finish_def no_menu_request_def split: sum.splits)

lemma getProjectInfo_finish_no_menu_request:
  "no_menu_request st (snd (getProjectInfo_finish env projectId k st))"
  by (simp add: getProjectInfo_finish_def no_menu_request_def split: sum.splits)

lemma fold_no_menu_request:
  assumes "\<And>w s. no_menu_request s (g w s)"
  shows "no_menu_request st (fold g ws st)"
proof (induction ws arbitrary: st)
  case Nil
  show ?case by simp
next
  case (Cons w ws)
  show ?case using assms [of st w] Cons.IH [of "g w st"]
    by (auto intro: no_menu_request_trans)
qed

lemma deliver_no_menu_request: "no_menu_request s (deliver env w s)"
proof -
  obtain ep p k where w: "w = (ep, p, k)" by (cases w)
  show ?thesis
    unfolding w deliver_def
    by (cases ep)
      (simp_all add: getProjectInfo_finish_no_menu_request getCategoryList_finish_no_menu_request
         no_menu_request_refl)
qed

lemma await_all_no_menu_request:
  assumes "\<And>p k s. no_menu_request s (snd (fin p k s))"
    and "\<And>w s. no_menu_request s (older w s)"
  shows "no_menu_request st (fst (await_all older fin first n ws st))"
proof (induction ws arbitrary: st n)
  case Nil
  show ?case by (simp add: no_menu_request_refl)
next
  case (Cons w ws)
  obtain ep p k where w: "w = (ep, p, k)" by (cases w)
  obtain r s1 where f: "fin p k st = (r, s1)" by (cases "fin p k st")
  have 1: "no_menu_request st s1" using assms(1) [of st p k] f by simp
  have 2: "no_menu_request st (older (ep, p, k) st)" by (rule assms(2))
  consider (settled) "n = 0" | (old) "n \<noteq> 0" "k < first" | (own) "n \<noteq> 0" "\<not> k < first"
    by blast
  then show ?case
  proof cases
    case settled
    then show ?thesis using w by (simp add: no_menu_request_refl)
  next
    case old
    then show ?thesis
      using w Cons.IH [of "older (ep, p, k) st" n] 2 by (auto intro: no_menu_request_trans)
  next
    case own
    show ?thesis
    proof (cases r)
      case (Inl e)
      then show ?thesis using own 1 f w by simp
    next
      case (Inr v)
      then show ?thesis
        using own 1 f w Cons.IH [of s1 "n - 1"] by (auto intro: no_menu_request_trans)
    qed
  qed
qed

lemma add_project_info_no_menu_request:
  "no_menu_request st (snd (add_project_info env st project projectId items))"
proof -
  obtain started st1 where s:
    "start_all getCategoryList_start (map (\<lambda>item. projectId) items) st = (started, st1)"
    by (cases "start_all getCategoryList_start (map (\<lambda>item. projectId) items) st")
  have 1: "no_menu_request st st1"
    using start_all_no_menu_request [of getCategoryList_start st "map (\<lambda>item. projectId) items",
        OF getCategoryList_start_no_menu_request] s by simp
  have 2: "no_menu_request st1
     (fst (await_all (deliver env) (\<lambda>p k s. (Inr (), snd (getCategoryList_finish env p k s)))
        first n ws st1))" for first n ws
    by (rule await_all_no_menu_request)
      (simp add: getCategoryList_finish_no_menu_request, rule deliver_no_menu_request)
  show ?thesis
    using 1 no_menu_request_trans [OF 1 2 [of "length (sent st)" "length (waiting_of started)"
        "in_order_of_arrival env
           (inflight st1 @ map (\<lambda>w. (GetCatMenu, fst w, snd w)) (waiting_of started))"]]
    by (auto simp: add_project_info_def s Let_def no_menu_request_def split: prod.splits)
qed

lemma Promise_all_no_menu_request:
  assumes "\<And>s k. no_menu_request s (snd (start s k))"
    and "\<And>p k s. no_menu_request s (snd (fin p k s))"
  shows "no_menu_request st (Promise_all env ep start fin ids st)"
proof -
  obtain started st1 where s: "start_all start ids st = (started, st1)"
    by (cases "start_all start ids st")
  have 1: "no_menu_request st st1"
    using start_all_no_menu_request [of start st ids, OF assms(1)] s by simp
  have 2: "no_menu_request st1 (fst (await_all (deliver env) fin first n ws st1))" for ws first n
    by (rule await_all_no_menu_request) (rule assms(2), rule deliver_no_menu_request)
  show ?thesis
    using 1 2 [of "length (sent st)" "length (waiting_of started)"
        "in_order_of_arrival env
           (inflight st1 @ map (\<lambda>w. (ep, fst w, snd w)) (waiting_of started))"]
    by (auto simp: Promise_all_def s Let_def no_menu_request_def split: prod.splits)
qed

lemma await_answer_no_menu_request: "no_menu_request st (await_answer env w st)"
  by (simp add: no_menu_request_def menu_requests_def)

lemma loadAllProjectInfo_no_menu_request:
  "no_menu_request st (loadAllProjectInfo env st)"
  by (simp add: loadAllProjectInfo_def Let_def Promise_all_no_menu_request
        getProjectInfo_start_no_menu_request getProjectInfo_finish_no_menu_request)

lemma getInterfaceMenu_answers:
  assumes "token_for st projectId \<noteq> []" and "answers_menu env projectId menuData"
  shows "getInterfaceMenu env st projectId =
           (Inr menuData,
            await_answer env (List_menu, projectId, length (sent st))
              (st\<lparr>sent := sent st @ [(List_menu, projectId)]\<rparr>))"
proof -
  obtain m where "list_menu env (length (sent st)) projectId =
      Response \<lparr>errcode = 0, errmsg = m, data = menuData\<rparr>"
    using assms(2) unfolding answers_menu_def by blast
  then show ?thesis
    using assms(1) by (simp add: getInterfaceMenu_def request_def send_def received_def)
qed

lemma searchWithSingleKeyword_no_filter:
  assumes "token_for st projectId \<noteq> []" and "answers_menu env projectId menuData"
  shows "searchWithSingleKeyword env st projectId
           \<lparr>q_keyword = None, q_path = None, q_tag = None\<rparr> pg lim =
         (\<lparr>res_total = length (flatten_menu menuData),
           res_list = sort_key (\<lambda>a. - a_id a) (flatten_menu menuData)\<rparr>,
          await_answer env (List_menu, projectId, length (sent st))
            (st\<lparr>sent := sent st @ [(List_menu, projectId)]\<rparr>))"
  by (simp add: searchWithSingleKeyword_def getInterfaceMenu_answers [OF assms] truthy_def
        Let_def)

lemma search_combination_no_keywords:
  assumes "token_for st (String_num (pi_id project)) \<noteq> []"
    and "answers_menu env (String_num (pi_id project)) menuData"
  shows "map a_id (fst (search_combination env pg lim project [] [] [] (acc, st))) =
           map a_id acc @ map a_id (sort_key (\<lambda>a. - a_id a) (flatten_menu menuData))"
    and "token_for (snd (search_combination env pg lim project [] [] [] (acc, st))) = token_for st"
    and "menu_requests (snd (search_combination env pg lim project [] [] [] (acc, st))) =
           menu_requests st + 1"
proof -
  let ?pid = "String_num (pi_id project)"
  let ?st1 = "await_answer env (List_menu, ?pid, length (sent st))
                (st\<lparr>sent := sent st @ [(List_menu, ?pid)]\<rparr>)"
  let ?items = "sort_key (\<lambda>a. - a_id a) (flatten_menu menuData)"
  obtain b st2 where b: "add_project_info env ?st1 project ?pid ?items = (b, st2)"
    by (cases "add_project_info env ?st1 project ?pid ?items")
  have c: "search_combination env pg lim project [] [] [] (acc, st) = (acc @ b, st2)"
    by (simp add: search_combination_def searchWithSingleKeyword_no_filter [OF assms] b)
  have ids: "map a_id b = map a_id ?items"
    using add_project_info_ids [of env ?st1 project ?pid ?items] b by simp
  have inv: "no_menu_request ?st1 st2"
    using add_project_info_no_menu_request [of ?st1 env project ?pid ?items] b by simp
  have t1: "token_for ?st1 = token_for st" by simp
  have m1: "menu_requests ?st1 = menu_requests st + 1" by (simp add: menu_requests_def)
  show "map a_id (fst (search_combination env pg lim project [] [] [] (acc, st))) =
           map a_id acc @ map a_id ?items"
    using c ids by simp
  show "token_for (snd (search_combination env pg lim project [] [] [] (acc, st))) = token_for st"
    using c inv t1 by (simp add: no_menu_request_def)
  show "menu_requests (snd (search_combination env pg lim project [] [] [] (acc, st))) =
           menu_requests st + 1"
    using c inv m1 by (simp add: no_menu_request_def)
qed

lemma fold_no_keywords:
  assumes "\<forall>p \<in> set ps. token_for st (String_num (pi_id p)) \<noteq> []
             \<and> answers_menu env (String_num (pi_id p)) (menu p)"
  shows "map a_id (fst (fold (\<lambda>p. search_combination env pg lim p [] [] []) ps (acc, st))) =
           map a_id acc @
           concat (map (\<lambda>p. map a_id (sort_key (\<lambda>a. - a_id a) (flatten_menu (menu p)))) ps)
       \<and> menu_requests (snd (fold (\<lambda>p. search_combination env pg lim p [] [] []) ps (acc, st))) =
           menu_requests st + length ps"
  using assms
proof (induction ps arbitrary: acc st)
  case Nil
  show ?case by simp
next
  case (Cons p ps)
  obtain acc1 st1 where s: "search_combination env pg lim p [] [] [] (acc, st) = (acc1, st1)"
    by (cases "search_combination env pg lim p [] [] [] (acc, st)")
  have tok: "token_for st (String_num (pi_id p)) \<noteq> []"
    and ans: "answers_menu env (String_num (pi_id p)) (menu p)"
    using Cons.prems by simp_all
  note step = search_combination_no_keywords [OF tok ans, of pg lim acc]
  have t1: "token_for st1 = token_for st" using step(2) s by simp
  have "\<forall>q \<in> set ps. token_for st1 (String_num (pi_id q)) \<noteq> []
             \<and> answers_menu env (String_num (pi_id q)) (menu q)"
    using Cons.prems t1 by simp
  from Cons.IH [OF this, of acc1] step(1) step(3) s
  show ?case by simp
qed

lemma search_projects_no_keywords:
  "search_projects env pg lim [] [] [] ps acc =
     fold (\<lambda>p. search_combination env pg lim p [] [] []) ps acc"
  by (simp add: search_projects_def or_blank_def)

text \<open>
  Claim C1, as the code has it. The result list is the list \<open>allResults\<close> without its
  duplicates, cut to \<open>limit\<close>. Removing the duplicates keeps the order of the list,
  keeps every id exactly once, and keeps of each id the first item that has it.
  \<open>allResults\<close> is made of one block per fetch (one fetch per candidate project and
  combination of keywords), in the order of the fetches; each block is sorted by
  descending id, the list as a whole is not sorted again.
\<close>

theorem results_deduplicated_in_fetch_order:
  "res_list (fst (searchApis env st options)) =
     slice0 (deduplicateResults (all_results env st options)) (limit_of options)
   \<and> distinct (map a_id (deduplicateResults xs))
   \<and> a_id ` set (deduplicateResults xs) = a_id ` set xs
   \<and> subseq (deduplicateResults xs) xs
   \<and> (\<forall>x \<in> set (deduplicateResults xs). find (\<lambda>y. a_id y = a_id x) xs = Some x)
   \<and> (\<exists>blocks.
        length blocks =
          length (candidate_projects (loadAllProjectInfo env st) options)
          * (length (or_blank (keywords_of (nameKeyword options)))
          * (length (or_blank (keywords_of (pathKeyword options)))
          * length (or_blank (keywords_of (tagKeyword options)))))
        \<and> all_results env st options = concat blocks
        \<and> (\<forall>b \<in> set blocks. sorted_wrt (\<lambda>x y. y \<le> x) (map a_id b)))"
proof (intro conjI)
  show "res_list (fst (searchApis env st options)) =
     slice0 (deduplicateResults (all_results env st options)) (limit_of options)"
    by (simp add: searchApis_result)
  show "distinct (map a_id (deduplicateResults xs))"
    by (simp add: deduplicateResults_def dedup_from_distinct)
  show "a_id ` set (deduplicateResults xs) = a_id ` set xs"
    by (rule deduplicateResults_ids)
  show "subseq (deduplicateResults xs) xs"
    by (simp add: deduplicateResults_def dedup_from_subseq)
  show "\<forall>x \<in> set (deduplicateResults xs). find (\<lambda>y. a_id y = a_id x) xs = Some x"
    by (auto simp: deduplicateResults_def dest: dedup_from_first)
  show "\<exists>blocks.
        length blocks =
          length (candidate_projects (loadAllProjectInfo env st) options)
          * (length (or_blank (keywords_of (nameKeyword options)))
          * (length (or_blank (keywords_of (pathKeyword options)))
          * length (or_blank (keywords_of (tagKeyword options)))))
        \<and> all_results env st options = concat blocks
        \<and> (\<forall>b \<in> set blocks. sorted_wrt (\<lambda>x y. y \<le> x) (map a_id b))"
    by (rule all_results_blocks)
qed

theorem results_deduplicated_in_fetch_order_witness:
  "map a_id (all_results shop both
       (no_options\<lparr>nameKeyword := Some (KeywordArray [''login'', ''admin''])\<rparr>)) = [9, 5, 9]
   \<and> map a_id (res_list (fst (searchApis shop both
       (no_options\<lparr>nameKeyword := Some (KeywordArray [''login'', ''admin''])\<rparr>)))) = [9, 5]
   \<and> distinct (map a_id (deduplicateResults (all_results shop both
       (no_options\<lparr>nameKeyword := Some (KeywordArray [''login'', ''admin''])\<rparr>))))"
proof -
  let ?o = "no_options\<lparr>nameKeyword := Some (KeywordArray [''login'', ''admin''])\<rparr>"
  have 1: "map a_id (all_results shop both ?o) = [9, 5, 9]" by code_simp
  have 2: "map a_id (slice0 (deduplicateResults (all_results shop both ?o)) (limit_of ?o)) = [9, 5]"
    by code_simp
  note inst = results_deduplicated_in_fetch_order [where env = shop and st = both
      and options = ?o and xs = "all_results shop both ?o"]
  have 3: "res_list (fst (searchApis shop both ?o)) =
      slice0 (deduplicateResults (all_results shop both ?o)) (limit_of ?o)"
    using inst by blast
  have 4: "distinct (map a_id (deduplicateResults (all_results shop both ?o)))"
    using inst by blast
  show ?thesis
    unfolding 3 using 1 2 4 by simp
qed

theorem global_sort_counterexample:
  "map a_id (res_list (fst (searchApisByName shop both ''o'' None None None None))) = [9, 7, 5, 8]
   \<and> \<not> sorted_wrt (\<lambda>x y. y \<le> x)
         (map a_id (res_list (fst (searchApisByName shop both ''o'' None None None None))))"
proof -
  have "map a_id (res_list (fst (searchApisByName shop both ''o'' None None None None)))
      = [9, 7, 5, 8]"
    by code_simp
  then show ?thesis by simp
qed

lemma js_filter_total: "(\<And>x. p x \<noteq> None) \<Longrightarrow> js_filter p xs \<noteq> None"
proof (induction xs)
  case Nil
  then show ?case by simp
next
  case (Cons x xs)
  from Cons.prems [of x] obtain b where "p x = Some b" by auto
  moreover from Cons.IH [OF Cons.prems] obtain ys where "js_filter p xs = Some ys" by auto
  ultimately show ?case by simp
qed

lemma searchWithSingleKeyword_menu:
  assumes "fst (getInterfaceMenu env st projectId) = Inr menuData"
  shows "fst (searchWithSingleKeyword env st projectId q pg lim) =
     \<lparr>res_total = length (filter_by_tag q (filter_by_path q (filter_by_name q (flatten_menu menuData)))),
      res_list = sort_key (\<lambda>a. - a_id a)
        (filter_by_tag q (filter_by_path q (filter_by_name q (flatten_menu menuData))))\<rparr>"
  using assms
  by (cases "getInterfaceMenu env st projectId") (simp add: searchWithSingleKeyword_def Let_def)

text \<open>
  Claim C4, as the code has it. A menu fetch that fails makes \<open>searchWithSingleKeyword\<close>
  return the empty result, and the step of the search loop for that project and
  combination leaves \<open>allResults\<close> as it was. The search as a whole returns what it would
  return if every failing menu fetch had been answered with an empty menu: the failure
  changes nothing else, the results of the other projects and combinations are returned
  and counted. A filter that throws is caught as well, but the combination does not come
  out empty: the filter by name and the filter by path never throw, and when the filter by
  tag throws, it is left out, and the combination returns the interfaces that passed the
  other filters. When it does not throw, the combination returns the interfaces it kept.
  (\<open>searchApis\<close> has no failure among its results: every failure is handled inside it.)
\<close>

theorem failure_is_isolated:
  "(fst (getInterfaceMenu env st projectId) = Inl e \<longrightarrow>
      fst (searchWithSingleKeyword env st projectId q pg lim) = \<lparr>res_total = 0, res_list = []\<rparr>)
   \<and> (fst (getInterfaceMenu env st (String_num (pi_id project))) = Inl e \<longrightarrow>
      fst (search_combination env pg lim project n pk t (acc, st)) = acc)
   \<and> searchApis env st options = searchApis (without_menu_failures env) st options
   \<and> js_filter (title_matches k) xs \<noteq> None
   \<and> js_filter (path_matches k) xs \<noteq> None
   \<and> (fst (getInterfaceMenu env st projectId) = Inr menuData
        \<and> q_tag q = Some tags \<and> tags \<noteq> []
        \<and> js_filter (tag_matches (map toLowerCase tags))
             (filter_by_path q (filter_by_name q (flatten_menu menuData))) = None \<longrightarrow>
      fst (searchWithSingleKeyword env st projectId q pg lim) =
        \<lparr>res_total = length (filter_by_path q (filter_by_name q (flatten_menu menuData))),
         res_list = sort_key (\<lambda>a. - a_id a)
           (filter_by_path q (filter_by_name q (flatten_menu menuData)))\<rparr>)
   \<and> (fst (getInterfaceMenu env st projectId) = Inr menuData
        \<and> q_tag q = Some tags \<and> tags \<noteq> []
        \<and> js_filter (tag_matches (map toLowerCase tags))
             (filter_by_path q (filter_by_name q (flatten_menu menuData))) = Some kept \<longrightarrow>
      fst (searchWithSingleKeyword env st projectId q pg lim) =
        \<lparr>res_total = length kept, res_list = sort_key (\<lambda>a. - a_id a) kept\<rparr>)"
proof (intro conjI impI)
  show "fst (searchWithSingleKeyword env st projectId q pg lim) = \<lparr>res_total = 0, res_list = []\<rparr>"
    if "fst (getInterfaceMenu env st projectId) = Inl e"
    using that by (simp add: searchWithSingleKeyword_failure)
  show "fst (search_combination env pg lim project n pk t (acc, st)) = acc"
    if "fst (getInterfaceMenu env st (String_num (pi_id project))) = Inl e"
    using that by (simp add: search_combination_failure)
  show "searchApis env st options = searchApis (without_menu_failures env) st options"
    by (simp add: searchApis_without_failures)
  show "js_filter (title_matches k) xs \<noteq> None"
    by (rule js_filter_total) (simp add: title_matches_def)
  show "js_filter (path_matches k) xs \<noteq> None"
    by (rule js_filter_total) (simp add: path_matches_def)
  show "fst (searchWithSingleKeyword env st projectId q pg lim) =
        \<lparr>res_total = length (filter_by_path q (filter_by_name q (flatten_menu menuData))),
         res_list = sort_key (\<lambda>a. - a_id a)
           (filter_by_path q (filter_by_name q (flatten_menu menuData)))\<rparr>"
    if "fst (getInterfaceMenu env st projectId) = Inr menuData
        \<and> q_tag q = Some tags \<and> tags \<noteq> []
        \<and> js_filter (tag_matches (map toLowerCase tags))
             (filter_by_path q (filter_by_name q (flatten_menu menuData))) = None"
    using that by (simp add: searchWithSingleKeyword_menu filter_by_tag_def try_filter_def)
  show "fst (searchWithSingleKeyword env st projectId q pg lim) =
        \<lparr>res_total = length kept, res_list = sort_key (\<lambda>a. - a_id a) kept\<rparr>"
    if "fst (getInterfaceMenu env st projectId) = Inr menuData
        \<and> q_tag q = Some tags \<and> tags \<noteq> []
        \<and> js_filter (tag_matches (map toLowerCase tags))
             (filter_by_path q (filter_by_name q (flatten_menu menuData))) = Some kept"
    using that by (simp add: searchWithSingleKeyword_menu filter_by_tag_def try_filter_def)
qed

theorem failure_is_isolated_witness:
  "fst (searchWithSingleKeyword flaky (loadAllProjectInfo flaky both) ''10''
          \<lparr>q_keyword = None, q_path = None, q_tag = None\<rparr> 1 20)
     = \<lparr>res_total = 0, res_list = []\<rparr>
   \<and> fst (search_combination flaky 1 20 (shop_project ''10'') [] [] []
          ([api 8 ''Order List'' ''/orders''], loadAllProjectInfo flaky both))
     = [api 8 ''Order List'' ''/orders'']
   \<and> map a_id (res_list (fst (searchApis flaky both no_options))) = [8]
   \<and> res_total (fst (searchApis flaky both no_options)) = 1
   \<and> map a_id (res_list (fst (searchWithSingleKeyword (tagged (JObject [(''toString'', JNumber 1)]))
          both ''10'' \<lparr>q_keyword = Some ''login'', q_path = None, q_tag = Some [''auth'']\<rparr> 1 20)))
     = [9, 5]
   \<and> map a_id (res_list (fst (searchWithSingleKeyword (tagged (JString ''admin''))
          both ''10'' \<lparr>q_keyword = Some ''login'', q_path = None, q_tag = Some [''auth'']\<rparr> 1 20)))
     = [5]"
proof -
  have f: "fst (getInterfaceMenu flaky (loadAllProjectInfo flaky both) ''10'') = Inl CommError"
    "fst (getInterfaceMenu flaky (loadAllProjectInfo flaky both)
            (String_num (pi_id (shop_project ''10'')))) = Inl CommError"
    by code_simp+
  have r: "map a_id (res_list (fst (searchApis (without_menu_failures flaky) both no_options))) = [8]"
    "res_total (fst (searchApis (without_menu_failures flaky) both no_options)) = 1"
    by code_simp+
  note inst = failure_is_isolated [where env = flaky and st = "loadAllProjectInfo flaky both"
      and projectId = "''10''" and e = CommError and project = "shop_project ''10''"]
  have 1: "fst (searchWithSingleKeyword flaky (loadAllProjectInfo flaky both) ''10''
          \<lparr>q_keyword = None, q_path = None, q_tag = None\<rparr> 1 20)
     = \<lparr>res_total = 0, res_list = []\<rparr>"
    using inst f(1) by blast
  have 2: "fst (search_combination flaky 1 20 (shop_project ''10'') [] [] []
          ([api 8 ''Order List'' ''/orders''], loadAllProjectInfo flaky both))
     = [api 8 ''Order List'' ''/orders'']"
    using inst f(2) by blast
  have 3: "searchApis flaky both no_options = searchApis (without_menu_failures flaky) both no_options"
    using failure_is_isolated [where env = flaky and st = both and options = no_options]
    by blast
  let ?q = "\<lparr>q_keyword = Some ''login'', q_path = None, q_tag = Some [''auth'']\<rparr>"
  let ?bad = "tagged (JObject [(''toString'', JNumber 1)])"
  let ?good = "tagged (JString ''admin'')"
  let ?menu = "\<lambda>x. [\<lparr>mc_id = 3, mc_name = ''Users'',
                mc_list = Some [(api 5 ''User Login'' ''/user/login'')\<lparr>a_tag := Some [JString ''Auth'']\<rparr>,
                                (api 9 ''Admin Login'' ''/admin/login'')\<lparr>a_tag := Some [x]\<rparr>,
                                api 7 ''Logout'' ''/logout'']\<rparr>]"
  let ?kept = "filter (\<lambda>a. a_id a = 5) (flatten_menu (?menu (JString ''admin'')))"
  have m: "fst (getInterfaceMenu (tagged x) both ''10'') = Inr (?menu x)" for x
    by (simp add: tagged_def getInterfaceMenu_def request_def send_def received_def)
      code_simp
  have t: "q_tag ?q = Some [''auth'']" "[''auth''] \<noteq> ([] :: string list)" by simp_all
  have b: "js_filter (tag_matches (map toLowerCase [''auth'']))
      (filter_by_path ?q (filter_by_name ?q (flatten_menu (?menu (JObject [(''toString'', JNumber 1)])))))
      = None"
    by code_simp
  have g: "js_filter (tag_matches (map toLowerCase [''auth'']))
      (filter_by_path ?q (filter_by_name ?q (flatten_menu (?menu (JString ''admin''))))) = Some ?kept"
    by code_simp
  have e: "map a_id (sort_key (\<lambda>a. - a_id a)
      (filter_by_path ?q (filter_by_name ?q (flatten_menu (?menu (JObject [(''toString'', JNumber 1)]))))))
      = [9, 5]"
    "map a_id (sort_key (\<lambda>a. - a_id a) ?kept) = [5]"
    by code_simp+
  have 4: "fst (searchWithSingleKeyword ?bad both ''10'' ?q 1 20) =
        \<lparr>res_total = length (filter_by_path ?q (filter_by_name ?q
            (flatten_menu (?menu (JObject [(''toString'', JNumber 1)]))))),
         res_list = sort_key (\<lambda>a. - a_id a)
           (filter_by_path ?q (filter_by_name ?q
             (flatten_menu (?menu (JObject [(''toString'', JNumber 1)])))))\<rparr>"
    using failure_is_isolated [where env = ?bad and st = both and projectId = "''10''"
        and q = ?q and tags = "[''auth'']"
        and menuData = "?menu (JObject [(''toString'', JNumber 1)])"] m t b
    by blast
  have 5: "fst (searchWithSingleKeyword ?good both ''10'' ?q 1 20) =
        \<lparr>res_total = length ?kept, res_list = sort_key (\<lambda>a. - a_id a) ?kept\<rparr>"
    using failure_is_isolated [where env = ?good and st = both and projectId = "''10''"
        and q = ?q and tags = "[''auth'']" and kept = ?kept
        and menuData = "?menu (JString ''admin'')"] m t g
    by blast
  show ?thesis
    unfolding 3 4 5 using 1 2 r e by simp
qed

theorem filter_failure_counterexample:
  "js_filter (tag_matches [''auth''])
      (flatten_menu (data (projr (received
         (list_menu (tagged (JObject [(''toString'', JNumber 1)])) 2 ''10''))))) = None
   \<and> map a_id (res_list (fst (searchWithSingleKeyword (tagged (JObject [(''toString'', JNumber 1)]))
          (loadAllProjectInfo (tagged (JObject [(''toString'', JNumber 1)])) both) ''10''
          \<lparr>q_keyword = None, q_path = None, q_tag = Some [''auth'']\<rparr> 1 20)))
     = [9, 7, 5]
   \<and> fst (searchWithSingleKeyword (tagged (JObject [(''toString'', JNumber 1)]))
          (loadAllProjectInfo (tagged (JObject [(''toString'', JNumber 1)])) both) ''10''
          \<lparr>q_keyword = None, q_path = None, q_tag = Some [''auth'']\<rparr> 1 20)
     \<noteq> \<lparr>res_total = 0, res_list = []\<rparr>
   \<and> map a_id (res_list (fst (searchApis (tagged (JObject [(''toString'', JNumber 1)])) both
          (no_options\<lparr>tagKeyword := Some (KeywordString ''auth'')\<rparr>))))
     = [9, 7, 5]
   \<and> res_total (fst (searchApis (tagged (JObject [(''toString'', JNumber 1)])) both
          (no_options\<lparr>tagKeyword := Some (KeywordString ''auth'')\<rparr>)))
     = 3"
proof -
  let ?bad = "tagged (JObject [(''toString'', JNumber 1)])"
  let ?q = "\<lparr>q_keyword = None, q_path = None, q_tag = Some [''auth'']\<rparr>"
  have 1: "js_filter (tag_matches [''auth''])
      (flatten_menu (data (projr (received (list_menu ?bad 2 ''10''))))) = None"
    by code_simp
  have 2: "map a_id (res_list (fst (searchWithSingleKeyword ?bad (loadAllProjectInfo ?bad both)
      ''10'' ?q 1 20))) = [9, 7, 5]"
    by code_simp
  have 3: "map a_id (res_list (fst (searchApis ?bad both
      (no_options\<lparr>tagKeyword := Some (KeywordString ''auth'')\<rparr>)))) = [9, 7, 5]"
    by code_simp
  have 4: "res_total (fst (searchApis ?bad both
      (no_options\<lparr>tagKeyword := Some (KeywordString ''auth'')\<rparr>))) = 3"
    by code_simp
  from 2 have "res_list (fst (searchWithSingleKeyword ?bad (loadAllProjectInfo ?bad both)
      ''10'' ?q 1 20)) \<noteq> []"
    by auto
  then have 5: "fst (searchWithSingleKeyword ?bad (loadAllProjectInfo ?bad both) ''10'' ?q 1 20)
      \<noteq> \<lparr>res_total = 0, res_list = []\<rparr>"
    by (metis SearchResult.select_convs(2))
  show ?thesis using 1 2 3 4 5 by simp
qed

text \<open>
  Claim C5, as the code has it. \<open>total\<close> is the number of results left when the
  duplicates are removed, and the list is \<open>slice(0, limit)\<close> of them. For a limit that
  is not negative these are their first \<open>limit\<close> entries, at most \<open>limit\<close> of them. A
  negative limit is not refused: \<open>slice\<close> then counts from the end, and the list is all
  results but the last \<open>-limit\<close>. In both cases the list is never longer than \<open>total\<close>
  says.
\<close>

theorem total_counts_before_truncation:
  "res_total (fst (searchApis env st options)) =
     length (deduplicateResults (all_results env st options))
   \<and> res_list (fst (searchApis env st options)) =
     slice0 (deduplicateResults (all_results env st options)) (limit_of options)
   \<and> (0 \<le> limit_of options \<longrightarrow>
        res_list (fst (searchApis env st options)) =
          take (nat (limit_of options)) (deduplicateResults (all_results env st options))
        \<and> int (length (res_list (fst (searchApis env st options)))) \<le> limit_of options)
   \<and> (limit_of options < 0 \<longrightarrow>
        res_list (fst (searchApis env st options)) =
          butlast_n (nat (- limit_of options)) (deduplicateResults (all_results env st options)))
   \<and> length (res_list (fst (searchApis env st options))) \<le>
        res_total (fst (searchApis env st options))"
proof -
  have "nat (int n + e) = n - nat (- e)" if "e < 0" for n :: nat and e :: int
    using that by linarith
  then show ?thesis
    by (auto simp: searchApis_result slice0_def butlast_n_def)
qed

theorem total_counts_before_truncation_witness:
  "res_total (fst (searchApis shop both (no_options\<lparr>limit := Some 2\<rparr>))) = 4
   \<and> map a_id (res_list (fst (searchApis shop both (no_options\<lparr>limit := Some 2\<rparr>)))) = [9, 7]
   \<and> map a_id (res_list (fst (searchApis shop both (no_options\<lparr>limit := Some (- 3)\<rparr>)))) = [9]"
proof -
  let ?o = "no_options\<lparr>limit := Some 2\<rparr>"
  let ?n = "no_options\<lparr>limit := Some (- 3)\<rparr>"
  have e: "length (deduplicateResults (all_results shop both ?o)) = 4"
    "map a_id (take (nat (limit_of ?o)) (deduplicateResults (all_results shop both ?o))) = [9, 7]"
    "map a_id (butlast_n (nat (- limit_of ?n)) (deduplicateResults (all_results shop both ?n))) = [9]"
    and l: "0 \<le> limit_of ?o" "limit_of ?n < 0"
    by code_simp+
  note inst = total_counts_before_truncation [where env = shop and st = both and options = ?o]
  have 1: "res_total (fst (searchApis shop both ?o)) =
      length (deduplicateResults (all_results shop both ?o))"
    using inst by blast
  have 2: "res_list (fst (searchApis shop both ?o)) =
      take (nat (limit_of ?o)) (deduplicateResults (all_results shop both ?o))"
    using inst l(1) by blast
  have 3: "res_list (fst (searchApis shop both ?n)) =
      butlast_n (nat (- limit_of ?n)) (deduplicateResults (all_results shop both ?n))"
    using total_counts_before_truncation [where env = shop and st = both and options = ?n] l(2)
    by blast
  show ?thesis
    unfolding 1 2 3 using e by simp
qed

theorem negative_limit_counterexample:
  "map a_id (res_list (fst (searchApisByName shop both ''o'' None None (Some (- 1)) None)))
     = [9, 7, 5]
   \<and> res_total (fst (searchApisByName shop both ''o'' None None (Some (- 1)) None)) = 4
   \<and> \<not> int (length (res_list (fst (searchApisByName shop both ''o'' None None (Some (- 1)) None))))
         \<le> - 1"
proof -
  have "map a_id (res_list (fst (searchApisByName shop both ''o'' None None (Some (- 1)) None)))
     = [9, 7, 5]"
    and "res_total (fst (searchApisByName shop both ''o'' None None (Some (- 1)) None)) = 4"
    and "length (res_list (fst (searchApisByName shop both ''o'' None None (Some (- 1)) None))) = 3"
    by code_simp+
  then show ?thesis by simp
qed

text \<open>
  Claim C9, as the code has it. The page number is handed down to
  \<open>searchWithSingleKeyword\<close> and never used: two searches that differ in the page alone
  return the same result (and leave the service in the same state). The list is always
  \<open>slice(0, limit)\<close> of the results without duplicates: their first \<open>limit\<close> entries
  when the limit is not negative, and all but their last \<open>-limit\<close> entries when it is
  negative.
\<close>

theorem search_ignores_page:
  "searchApis env st (options\<lparr>page := p\<rparr>) = searchApis env st (options\<lparr>page := p'\<rparr>)
   \<and> searchApisByName env st nameKey projectKey p lim maxP =
       searchApisByName env st nameKey projectKey p' lim maxP
   \<and> searchApisByPath env st pathKey projectKey p lim maxP =
       searchApisByPath env st pathKey projectKey p' lim maxP
   \<and> res_list (fst (searchApis env st options)) =
       slice0 (deduplicateResults (all_results env st options)) (limit_of options)
   \<and> (0 \<le> limit_of options \<longrightarrow>
        res_list (fst (searchApis env st options)) =
          take (nat (limit_of options)) (deduplicateResults (all_results env st options)))
   \<and> (limit_of options < 0 \<longrightarrow>
        res_list (fst (searchApis env st options)) =
          butlast_n (nat (- limit_of options)) (deduplicateResults (all_results env st options)))"
proof (intro conjI)
  show "searchApis env st (options\<lparr>page := p\<rparr>) = searchApis env st (options\<lparr>page := p'\<rparr>)"
    by (rule searchApis_page)
  show "searchApisByName env st nameKey projectKey p lim maxP =
       searchApisByName env st nameKey projectKey p' lim maxP"
    unfolding searchApisByName_def
    using searchApis_page [where env = env and st = st and options = "\<lparr>projectKeyword = projectKey,
        nameKeyword = Some (KeywordArray [nameKey]), pathKeyword = None, tagKeyword = None,
        page = None, limit = Some (case lim of None \<Rightarrow> 20 | Some n \<Rightarrow> n),
        maxProjects = Some (case maxP of None \<Rightarrow> 5 | Some n \<Rightarrow> n)\<rparr>"
        and p = "Some (case p of None \<Rightarrow> 1 | Some n \<Rightarrow> n)"
        and p' = "Some (case p' of None \<Rightarrow> 1 | Some n \<Rightarrow> n)"]
    by simp
  show "searchApisByPath env st pathKey projectKey p lim maxP =
       searchApisByPath env st pathKey projectKey p' lim maxP"
    unfolding searchApisByPath_def
    using searchApis_page [where env = env and st = st and options = "\<lparr>projectKeyword = projectKey,
        nameKeyword = None, pathKeyword = Some (KeywordArray [pathKey]), tagKeyword = None,
        page = None, limit = Some (case lim of None \<Rightarrow> 20 | Some n \<Rightarrow> n),
        maxProjects = Some (case maxP of None \<Rightarrow> 5 | Some n \<Rightarrow> n)\<rparr>"
        and p = "Some (case p of None \<Rightarrow> 1 | Some n \<Rightarrow> n)"
        and p' = "Some (case p' of None \<Rightarrow> 1 | Some n \<Rightarrow> n)"]
    by simp
  show "res_list (fst (searchApis env st options)) =
       slice0 (deduplicateResults (all_results env st options)) (limit_of options)"
    by (simp add: searchApis_result)
  show "0 \<le> limit_of options \<longrightarrow>
        res_list (fst (searchApis env st options)) =
          take (nat (limit_of options)) (deduplicateResults (all_results env st options))"
    by (simp add: searchApis_result slice0_def)
  have "nat (int n + e) = n - nat (- e)" if "e < 0" for n :: nat and e :: int
    using that by linarith
  then show "limit_of options < 0 \<longrightarrow>
        res_list (fst (searchApis env st options)) =
          butlast_n (nat (- limit_of options)) (deduplicateResults (all_results env st options))"
    by (simp add: searchApis_result slice0_def butlast_n_def)
qed

theorem search_ignores_page_witness:
  "searchApis shop both (no_options\<lparr>limit := Some 2, page := Some 1\<rparr>) =
     searchApis shop both (no_options\<lparr>limit := Some 2, page := Some 2\<rparr>)
   \<and> map a_id (res_list (fst (searchApis shop both (no_options\<lparr>limit := Some 2, page := Some 2\<rparr>))))
     = [9, 7]
   \<and> map a_id (res_list (fst (searchApis shop both (no_options\<lparr>limit := Some (- 2), page := Some 2\<rparr>))))
     = [9, 7]"
proof -
  let ?o = "no_options\<lparr>limit := Some 2\<rparr>"
  let ?o2 = "no_options\<lparr>limit := Some 2, page := Some 2\<rparr>"
  let ?n2 = "no_options\<lparr>limit := Some (- 2), page := Some 2\<rparr>"
  have e: "map a_id (take (nat (limit_of ?o2)) (deduplicateResults (all_results shop both ?o2)))
      = [9, 7]"
    "map a_id (butlast_n (nat (- limit_of ?n2)) (deduplicateResults (all_results shop both ?n2)))
      = [9, 7]"
    and l: "0 \<le> limit_of ?o2" "limit_of ?n2 < 0"
    by code_simp+
  have 1: "searchApis shop both (?o\<lparr>page := Some 1\<rparr>) = searchApis shop both (?o\<lparr>page := Some 2\<rparr>)"
    using search_ignores_page [where env = shop and st = both and options = ?o
        and p = "Some 1" and p' = "Some 2"]
    by blast
  have 2: "res_list (fst (searchApis shop both ?o2)) =
      take (nat (limit_of ?o2)) (deduplicateResults (all_results shop both ?o2))"
    using search_ignores_page [where env = shop and st = both and options = ?o2] l(1)
    by blast
  have 3: "res_list (fst (searchApis shop both ?n2)) =
      butlast_n (nat (- limit_of ?n2)) (deduplicateResults (all_results shop both ?n2))"
    using search_ignores_page [where env = shop and st = both and options = ?n2] l(2)
    by blast
  show ?thesis
    unfolding 2 3 using 1 e by simp
qed

theorem first_entries_counterexample:
  "limit_of (no_options\<lparr>limit := Some (- 1)\<rparr>) = - 1
   \<and> map a_id (deduplicateResults (all_results shop both (no_options\<lparr>limit := Some (- 1)\<rparr>)))
       = [9, 7, 5, 8]
   \<and> map a_id (res_list (fst (searchApis shop both (no_options\<lparr>limit := Some (- 1)\<rparr>))))
       = [9, 7, 5]
   \<and> res_list (fst (searchApis shop both (no_options\<lparr>limit := Some (- 1)\<rparr>))) \<noteq>
       take (nat (limit_of (no_options\<lparr>limit := Some (- 1)\<rparr>)))
         (deduplicateResults (all_results shop both (no_options\<lparr>limit := Some (- 1)\<rparr>)))"
proof -
  let ?o = "no_options\<lparr>limit := Some (- 1)\<rparr>"
  have l: "limit_of ?o = - 1"
    and d: "map a_id (deduplicateResults (all_results shop both ?o)) = [9, 7, 5, 8]"
    and r: "map a_id (res_list (fst (searchApis shop both ?o))) = [9, 7, 5]"
    by code_simp+
  have "map a_id (res_list (fst (searchApis shop both ?o))) \<noteq>
      map a_id (take (nat (limit_of ?o)) (deduplicateResults (all_results shop both ?o)))"
    unfolding r l by simp
  then have "res_list (fst (searchApis shop both ?o)) \<noteq>
      take (nat (limit_of ?o)) (deduplicateResults (all_results shop both ?o))"
    by metis
  then show ?thesis using l d r by simp
qed



section \<open>Properties of refreshing the cache\<close>

text \<open>
  Three projects, the answers arriving in the order of the requests, the second one a
  failure. The answer for project 30 is in flight when \<open>loadAllProjectInfo\<close> returns:
  the snapshot holds project 10 alone, the category list is asked for project 10 alone,
  and project 30 enters the project map while that request is awaited.
\<close>

lemma refresh_with_answer_in_flight:
  "map_option (map fst) (persisted (asyncUpdateCache shop_without_20 server_three)) = Some [''10'']
   \<and> sent (yapiService (asyncUpdateCache shop_without_20 server_three))
       = [(Project_get, ''10''), (Project_get, ''20''), (Project_get, ''30''), (GetCatMenu, ''10'')]
   \<and> map fst (projectInfoCache (yapiService (asyncUpdateCache shop_without_20 server_three)))
       = [''10'', ''30'']
   \<and> map fst (categoryListCache (yapiService (asyncUpdateCache shop_without_20 server_three)))
       = [''10'']
   \<and> inflight (yapiService (asyncUpdateCache shop_without_20 server_three)) = []"
  by code_simp

text \<open>
  Claim C8, at an input where the code does not do what the claim says. Two projects are
  configured; the remote service fails the request for project 10 and serves project 20.
  When the failure arrives first, \<open>Promise.all\<close> is rejected at once and
  \<open>loadAllProjectInfo\<close> returns: the refresh goes on with an empty project map, so that
  the snapshot written is empty and no category list is asked for. The answer for
  project 20 is stored when it arrives,
  after the refresh has ended: project 20 is in the project map without a category list.
  When the answer for project 20 arrives first, its category list is fetched and stored.
\<close>

theorem refresh_stops_at_first_failure:
  "projectInfoCache (yapiService (asyncUpdateCache shop_without_10 server_both)) = []
   \<and> persisted (asyncUpdateCache shop_without_10 server_both) = Some []
   \<and> sent (yapiService (asyncUpdateCache shop_without_10 server_both))
       = [(Project_get, ''10''), (Project_get, ''20'')]
   \<and> inflight (yapiService (asyncUpdateCache shop_without_10 server_both))
       = [(Project_get, ''20'', 1)]
   \<and> projectInfoCache
         (settle shop_without_10 (yapiService (asyncUpdateCache shop_without_10 server_both)))
       = [(''20'', shop_project ''20'')]
   \<and> categoryListCache
         (settle shop_without_10 (yapiService (asyncUpdateCache shop_without_10 server_both)))
       = []
   \<and> categoryListCache
         (settle shop_20_first (yapiService (asyncUpdateCache shop_20_first server_both)))
       = [(''20'', shop_categories ''20'')]"
  by code_simp

end
